theory Spec2Isabelle
  imports Main
begin

section \<open>Strings as JavaScript uses them\<close>

text \<open>
  \<^verbatim>\<open>String.prototype.split\<close> with a one-character separator: the result is never
  empty, and the empty string splits into one empty field.
\<close>

fun splitOn :: "char \<Rightarrow> string \<Rightarrow> string list" where
  "splitOn sep [] = [[]]"
| "splitOn sep (c # cs) =
     (if c = sep then [] # splitOn sep cs
      else (case splitOn sep cs of
              [] \<Rightarrow> [[c]]
            | x # xs \<Rightarrow> (c # x) # xs))"

text \<open>\<^verbatim>\<open>Array.prototype.join\<close> on an array of strings.\<close>

fun joinWith :: "string \<Rightarrow> string list \<Rightarrow> string" where
  "joinWith sep [] = []"
| "joinWith sep [x] = x"
| "joinWith sep (x # y # ys) = x @ sep @ joinWith sep (y # ys)"

text \<open>\<^verbatim>\<open>String.prototype.endsWith\<close>.\<close>

definition endsWith :: "string \<Rightarrow> string \<Rightarrow> bool" where
  "endsWith s suf \<longleftrightarrow>
     length suf \<le> length s \<and> drop (length s - length suf) s = suf"

text \<open>\<^verbatim>\<open>String.prototype.toLowerCase\<close>, on the ASCII letters.\<close>

definition lowerChar :: "char \<Rightarrow> char" where
  "lowerChar c =
     (let n = (of_char c :: nat)
      in if 65 \<le> n \<and> n \<le> 90 then char_of (n + 32) else c)"

definition toLowerCase :: "string \<Rightarrow> string" where
  "toLowerCase s = map lowerChar s"

text \<open>
  A number inside a template literal. The API level is an integer; it prints in
  decimal, with a minus sign when negative.
\<close>

fun showNat :: "nat \<Rightarrow> string" where
  "showNat n =
     (if n < 10 then [char_of (48 + n)]
      else showNat (n div 10) @ [char_of (48 + n mod 10)])"

declare showNat.simps [simp del]

definition showInt :: "int \<Rightarrow> string" where
  "showInt i = (if i < 0 then CHR ''-'' # showNat (nat (- i)) else showNat (nat i))"

text \<open>A value that may be \<^verbatim>\<open>undefined\<close>, inside a template literal.\<close>

definition showMaybe :: "('a \<Rightarrow> string) \<Rightarrow> 'a option \<Rightarrow> string" where
  "showMaybe f v = (case v of None \<Rightarrow> ''undefined'' | Some x \<Rightarrow> f x)"

section \<open>The target catalog of \<^verbatim>\<open>cargo.ts\<close>\<close>

text \<open>
  The two string-literal unions \<^verbatim>\<open>AndroidTargetName\<close> and \<^verbatim>\<open>AppleTargetName\<close>.
  Their members are the keys of the two \<^verbatim>\<open>Record\<close> tables of \<^verbatim>\<open>cargo.ts\<close>, which
  TypeScript requires to list every member and no other key.
\<close>

datatype AndroidTargetName =
    Aarch64LinuxAndroid
  | Armv7LinuxAndroideabi
  | I686LinuxAndroid
  | X8664LinuxAndroid

datatype AppleTargetName =
    Aarch64AppleDarwin
  | X8664AppleDarwin
  | Aarch64AppleIos
  | Aarch64AppleIosSim
  | X8664AppleIos
  | Aarch64AppleVisionos
  | Aarch64AppleVisionosSim
  | Aarch64AppleTvos
  | Aarch64AppleTvosSim
  | X8664AppleTvos

datatype TargetName = Android AndroidTargetName | Apple AppleTargetName

text \<open>The string each member stands for.\<close>

fun androidTriple :: "AndroidTargetName \<Rightarrow> string" where
  "androidTriple Aarch64LinuxAndroid = ''aarch64-linux-android''"
| "androidTriple Armv7LinuxAndroideabi = ''armv7-linux-androideabi''"
| "androidTriple I686LinuxAndroid = ''i686-linux-android''"
| "androidTriple X8664LinuxAndroid = ''x86_64-linux-android''"

fun appleTriple :: "AppleTargetName \<Rightarrow> string" where
  "appleTriple Aarch64AppleDarwin = ''aarch64-apple-darwin''"
| "appleTriple X8664AppleDarwin = ''x86_64-apple-darwin''"
| "appleTriple Aarch64AppleIos = ''aarch64-apple-ios''"
| "appleTriple Aarch64AppleIosSim = ''aarch64-apple-ios-sim''"
| "appleTriple X8664AppleIos = ''x86_64-apple-ios''"
| "appleTriple Aarch64AppleVisionos = ''aarch64-apple-visionos''"
| "appleTriple Aarch64AppleVisionosSim = ''aarch64-apple-visionos-sim''"
| "appleTriple Aarch64AppleTvos = ''aarch64-apple-tvos''"
| "appleTriple Aarch64AppleTvosSim = ''aarch64-apple-tvos-sim''"
| "appleTriple X8664AppleTvos = ''x86_64-apple-tvos''"

fun triple :: "TargetName \<Rightarrow> string" where
  "triple (Android t) = androidTriple t"
| "triple (Apple t) = appleTriple t"

text \<open>\<^verbatim>\<open>APPLE_XCFRAMEWORK_SLICES_PER_TARGET\<close>: the slices of a target in order of priority.\<close>

fun APPLE_XCFRAMEWORK_SLICES_PER_TARGET :: "AppleTargetName \<Rightarrow> string list" where
  "APPLE_XCFRAMEWORK_SLICES_PER_TARGET Aarch64AppleDarwin =
     [''macos-arm64_x86_64'', ''macos-arm64'']"
| "APPLE_XCFRAMEWORK_SLICES_PER_TARGET X8664AppleDarwin =
     [''macos-arm64_x86_64'', ''macos-x86_64'']"
| "APPLE_XCFRAMEWORK_SLICES_PER_TARGET Aarch64AppleIos = [''ios-arm64'']"
| "APPLE_XCFRAMEWORK_SLICES_PER_TARGET Aarch64AppleIosSim =
     [''ios-arm64_x86_64-simulator'', ''ios-arm64-simulator'']"
| "APPLE_XCFRAMEWORK_SLICES_PER_TARGET X8664AppleIos =
     [''ios-arm64_x86_64-simulator'', ''ios-x86_64-simulator'']"
| "APPLE_XCFRAMEWORK_SLICES_PER_TARGET Aarch64AppleVisionos = [''xros-arm64'']"
| "APPLE_XCFRAMEWORK_SLICES_PER_TARGET Aarch64AppleVisionosSim =
     [''xros-arm64_x86_64-simulator'', ''xros-arm64-simulator'']"
| "APPLE_XCFRAMEWORK_SLICES_PER_TARGET Aarch64AppleTvos = [''tvos-arm64'']"
| "APPLE_XCFRAMEWORK_SLICES_PER_TARGET Aarch64AppleTvosSim =
     [''tvos-arm64_x86_64-simulator'', ''tvos-arm64-simulator'']"
| "APPLE_XCFRAMEWORK_SLICES_PER_TARGET X8664AppleTvos =
     [''tvos-arm64_x86_64-simulator'', ''tvos-x86_64-simulator'']"

fun ANDROID_ARCH_PR_TARGET :: "AndroidTargetName \<Rightarrow> string" where
  "ANDROID_ARCH_PR_TARGET Aarch64LinuxAndroid = ''arm64-v8a''"
| "ANDROID_ARCH_PR_TARGET Armv7LinuxAndroideabi = ''armeabi-v7a''"
| "ANDROID_ARCH_PR_TARGET I686LinuxAndroid = ''x86''"
| "ANDROID_ARCH_PR_TARGET X8664LinuxAndroid = ''x86_64''"

section \<open>Architecture and platform names of an Android target\<close>

text \<open>
  \<^verbatim>\<open>const [first] = target.split("-")\<close>: the first element of the split, which
  JavaScript leaves \<^verbatim>\<open>undefined\<close> on an empty array (\<open>splitOn\<close> returns none).
\<close>

definition firstComponent :: "string \<Rightarrow> string option" where
  "firstComponent s = (case splitOn CHR ''-'' s of [] \<Rightarrow> None | x # _ \<Rightarrow> Some x)"

definition getTargetAndroidArch :: "AndroidTargetName \<Rightarrow> string option" where
  "getTargetAndroidArch target =
     (let first = firstComponent (androidTriple target)
      in if first = Some ''armv7'' then Some ''armv7a'' else first)"

definition getTargetAndroidPlatform :: "AndroidTargetName \<Rightarrow> string" where
  "getTargetAndroidPlatform target =
     (if getTargetAndroidArch target = Some ''armv7a''
      then ''androideabi24'' else ''android24'')"

section \<open>The process and the file system\<close>

text \<open>
  What the code reads besides its arguments: \<^verbatim>\<open>process.env\<close>,
  \<^verbatim>\<open>process.platform\<close>, \<^verbatim>\<open>process.cwd()\<close>, the file system through
  \<^verbatim>\<open>fs.existsSync\<close> and \<^verbatim>\<open>fs.readdirSync\<close> (\<open>None\<close> where it throws), the
  platform's \<^verbatim>\<open>path.join\<close> and \<^verbatim>\<open>path.resolve\<close>, and the directory of the
  \<^verbatim>\<open>weak-node-api\<close> module (\<^verbatim>\<open>import.meta.dirname\<close> in \<^verbatim>\<open>weak-node-api.ts\<close>).
\<close>

record world =
  env :: "string \<rightharpoonup> string"
  platform :: string
  cwd :: string
  existsSync :: "string \<Rightarrow> bool"
  readdirSync :: "string \<Rightarrow> string list option"
  path_join :: "string list \<Rightarrow> string"
  path_resolve :: "string list \<Rightarrow> string"
  weakNodeApiDirname :: string

text \<open>
  The paths that \<^verbatim>\<open>weak-node-api.ts\<close> exports (its \<^verbatim>\<open>outputPath\<close> is
  \<open>weakNodeApiOutputPath\<close> here).
\<close>

definition weakNodeApiPath :: "world \<Rightarrow> string" where
  "weakNodeApiPath w = path_resolve w [weakNodeApiDirname w, ''..'']"

definition weakNodeApiOutputPath :: "world \<Rightarrow> string" where
  "weakNodeApiOutputPath w = path_resolve w [weakNodeApiPath w, ''build'', ''Release'']"

definition applePrebuildPath :: "world \<Rightarrow> string" where
  "applePrebuildPath w =
     path_resolve w [weakNodeApiOutputPath w, ''weak-node-api.xcframework'']"

definition androidPrebuildPath :: "world \<Rightarrow> string" where
  "androidPrebuildPath w =
     path_resolve w [weakNodeApiOutputPath w, ''weak-node-api.android.node'']"

text \<open>
  What the code throws: \<^verbatim>\<open>assert\<close> of \<^verbatim>\<open>node:assert\<close>, \<^verbatim>\<open>assertFixable\<close> of the
  CLI utilities (a usage error with a message and a remedy), \<^verbatim>\<open>new Error\<close>, a file
  system call, and a build process that fails.
\<close>

datatype error =
    AssertionError string
  | FixableError string string
  | Error string
  | FsError string
  | SpawnFailed string

definition andThen :: "error + 'a \<Rightarrow> ('a \<Rightarrow> error + 'b) \<Rightarrow> error + 'b" where
  "andThen m f = (case m of Inl e \<Rightarrow> Inl e | Inr x \<Rightarrow> f x)"

text \<open>\<^verbatim>\<open>assert(v, msg)\<close> on a string that may be \<^verbatim>\<open>undefined\<close>: the empty string is falsy.\<close>

definition assertString :: "string option \<Rightarrow> error \<Rightarrow> error + string" where
  "assertString v e =
     (case v of
        None \<Rightarrow> Inl e
      | Some s \<Rightarrow> if s = [] then Inl e else Inr s)"

definition joinPathAndAssertExistence :: "world \<Rightarrow> string list \<Rightarrow> error + string" where
  "joinPathAndAssertExistence w pathSegments =
     (let joinedPath = path_join w pathSegments
      in if existsSync w joinedPath then Inr joinedPath
         else Inl (AssertionError (''Expected '' @ joinedPath @ '' to exist'')))"

definition getLLVMToolchainBinPath :: "world \<Rightarrow> string \<Rightarrow> error + string" where
  "getLLVMToolchainBinPath w ndkPath =
     (let prebuiltPath = path_join w [ndkPath, ''toolchains'', ''llvm'', ''prebuilt'']
      in case readdirSync w prebuiltPath of
           None \<Rightarrow> Inl (FsError prebuiltPath)
         | Some candidates \<Rightarrow>
             (case candidates of
                [] \<Rightarrow> Inl (Error ''Expected LLVM toolchain to be installed'')
              | [c] \<Rightarrow> Inr (path_join w [prebuiltPath, c, ''bin''])
              | _ \<Rightarrow> Inl (Error ''Expected a single LLVM toolchain to be installed'')))"

definition getWeakNodeApiFrameworkPath :: "world \<Rightarrow> AppleTargetName \<Rightarrow> error + string" where
  "getWeakNodeApiFrameworkPath w target =
     (let result = List.find
            (\<lambda>slice. existsSync w (path_join w [applePrebuildPath w, slice]))
            (APPLE_XCFRAMEWORK_SLICES_PER_TARGET target)
      in andThen
           (assertString result
              (AssertionError
                 (''No matching slice found in weak-node-api.xcframework for target ''
                  @ appleTriple target)))
           (\<lambda>slice. joinPathAndAssertExistence w [applePrebuildPath w, slice]))"

definition getWeakNodeApiAndroidLibraryPath ::
    "world \<Rightarrow> AndroidTargetName \<Rightarrow> error + string" where
  "getWeakNodeApiAndroidLibraryPath w target =
     joinPathAndAssertExistence w [androidPrebuildPath w, ANDROID_ARCH_PR_TARGET target]"

section \<open>The environment of a build\<close>

datatype Configuration = Debug | Release

fun configurationName :: "Configuration \<Rightarrow> string" where
  "configurationName Debug = ''debug''"
| "configurationName Release = ''release''"

text \<open>
  \<^verbatim>\<open>BuildOptions\<close>. The Android fields are optional in the Apple alternative of the
  union, and the function checks \<^verbatim>\<open>ndkVersion\<close> at run time, so both are options.
\<close>

record BuildOptions =
  configuration :: Configuration
  target :: TargetName
  ndkVersion :: "string option"
  androidApiLevel :: "int option"

text \<open>The separator of \<^verbatim>\<open>CARGO_ENCODED_RUSTFLAGS\<close>: \<^verbatim>\<open>String.fromCharCode(0x1f)\<close>.\<close>

definition unitSeparator :: char where
  "unitSeparator = CHR 0x1F"

text \<open>
  The Android branch of \<^verbatim>\<open>getTargetEnvironmentVariables\<close>. The properties of the
  object literal are evaluated in the order written; the first assertion that fails
  ends the function.
\<close>

definition androidEnvironment ::
    "world \<Rightarrow> AndroidTargetName \<Rightarrow> string option \<Rightarrow> int option
      \<Rightarrow> error + (string \<times> string) list" where
  "androidEnvironment w t ndk api =
     andThen (assertString ndk
        (AssertionError ''Expected ndkVersion to be set for Android targets''))
     (\<lambda>ndkVersion.
     andThen (case env w ''ANDROID_HOME'' of
                None \<Rightarrow> Inl (FixableError ''Missing ANDROID_HOME environment variable''
                                ''Set ANDROID_HOME to the Android SDK directory'')
              | Some h \<Rightarrow>
                  if h \<noteq> [] \<and> existsSync w h then Inr h
                  else Inl (FixableError ''Missing ANDROID_HOME environment variable''
                                ''Set ANDROID_HOME to the Android SDK directory''))
     (\<lambda>ANDROID_HOME.
     let ndkPath = path_join w [ANDROID_HOME, ''ndk'', ndkVersion] in
     andThen (if existsSync w ndkPath then Inr ()
              else Inl (FixableError (''Expected NDK at '' @ ndkPath)
                          (''sdkmanager --install '' @ [CHR 0x22] @ ''ndk;'' @ ndkVersion
                           @ [CHR 0x22])))
     (\<lambda>_.
     andThen (getLLVMToolchainBinPath w ndkPath)
     (\<lambda>toolchainBinPath.
     let targetArch = showMaybe id (getTargetAndroidArch t);
         targetPlatform = getTargetAndroidPlatform t in
     andThen (getWeakNodeApiAndroidLibraryPath w t)
     (\<lambda>weakNodeApiPath.
     let cmdMaybe = (if platform w = ''win32'' then ''.cmd'' else []);
         exeMaybe = (if platform w = ''win32'' then ''.exe'' else []);
         level = showMaybe showInt api in
     andThen (joinPathAndAssertExistence w
        [toolchainBinPath, ''aarch64-linux-android'' @ level @ ''-clang'' @ cmdMaybe])
     (\<lambda>aarch64Linker.
     andThen (joinPathAndAssertExistence w
        [toolchainBinPath, ''armv7a-linux-androideabi'' @ level @ ''-clang'' @ cmdMaybe])
     (\<lambda>armv7Linker.
     andThen (joinPathAndAssertExistence w
        [toolchainBinPath, ''x86_64-linux-android'' @ level @ ''-clang'' @ cmdMaybe])
     (\<lambda>x8664Linker.
     andThen (joinPathAndAssertExistence w
        [toolchainBinPath, ''i686-linux-android'' @ level @ ''-clang'' @ cmdMaybe])
     (\<lambda>i686Linker.
     andThen (joinPathAndAssertExistence w
        [toolchainBinPath,
         targetArch @ ''-linux-'' @ targetPlatform @ ''-clang'' @ cmdMaybe])
     (\<lambda>targetCc.
     andThen (joinPathAndAssertExistence w
        [toolchainBinPath,
         targetArch @ ''-linux-'' @ targetPlatform @ ''-clang++'' @ cmdMaybe])
     (\<lambda>targetCxx.
     andThen (joinPathAndAssertExistence w [toolchainBinPath, ''llvm-ar'' @ exeMaybe])
     (\<lambda>targetAr.
     andThen (joinPathAndAssertExistence w [toolchainBinPath, ''llvm-ranlib'' @ exeMaybe])
     (\<lambda>targetRanlib.
     Inr [(''CARGO_ENCODED_RUSTFLAGS'',
             joinWith [unitSeparator] [''-L'', weakNodeApiPath, ''-l'', ''weak-node-api'']),
          (''CARGO_TARGET_AARCH64_LINUX_ANDROID_LINKER'', aarch64Linker),
          (''CARGO_TARGET_ARMV7_LINUX_ANDROIDEABI_LINKER'', armv7Linker),
          (''CARGO_TARGET_X86_64_LINUX_ANDROID_LINKER'', x8664Linker),
          (''CARGO_TARGET_I686_LINUX_ANDROID_LINKER'', i686Linker),
          (''TARGET_CC'', targetCc),
          (''TARGET_CXX'', targetCxx),
          (''TARGET_AR'', targetAr),
          (''TARGET_RANLIB'', targetRanlib),
          (''ANDROID_NDK'', ndkPath),
          (''PATH'', toolchainBinPath @ '':'' @ showMaybe id (env w ''PATH''))])))))))))))))"

text \<open>The Apple branch of \<^verbatim>\<open>getTargetEnvironmentVariables\<close>.\<close>

definition appleEnvironment ::
    "world \<Rightarrow> AppleTargetName \<Rightarrow> error + (string \<times> string) list" where
  "appleEnvironment w t =
     andThen (getWeakNodeApiFrameworkPath w t)
     (\<lambda>weakNodeApiFrameworkPath.
        if existsSync w weakNodeApiFrameworkPath
        then Inr [(''CARGO_ENCODED_RUSTFLAGS'',
                    joinWith [unitSeparator]
                      [''-L'', ''framework='' @ weakNodeApiFrameworkPath,
                       ''-l'', ''framework=weak-node-api''])]
        else Inl (AssertionError
                    (''Expected weak-node-api framework at '' @ weakNodeApiFrameworkPath)))"

text \<open>
  \<^verbatim>\<open>getTargetEnvironmentVariables\<close>: the returned object, as the list of its
  properties in the order the literal writes them. \<^verbatim>\<open>isAndroidTarget\<close> and
  \<^verbatim>\<open>isAppleTarget\<close> are the type guards of \<^verbatim>\<open>targets.js\<close> that narrow the
  target to one of the two unions: the case distinction on \<open>TargetName\<close>. The last
  branch of the source (\<^verbatim>\<open>Unexpected target\<close>) is for a value outside both unions,
  which the type does not have.
\<close>

definition getTargetEnvironmentVariables ::
    "world \<Rightarrow> BuildOptions \<Rightarrow> error + (string \<times> string) list" where
  "getTargetEnvironmentVariables w options =
     (case target options of
        Android t \<Rightarrow>
          androidEnvironment w t (ndkVersion options) (androidApiLevel options)
      | Apple t \<Rightarrow> appleEnvironment w t)"

section \<open>The build of one target\<close>

text \<open>
  The argument list that \<^verbatim>\<open>build\<close> hands to \<^verbatim>\<open>cargo\<close>. \<^verbatim>\<open>isThirdTierTarget\<close> is a
  predicate of \<^verbatim>\<open>targets.js\<close>, taken as a parameter. \<^verbatim>\<open>args.push\<close> appends,
  \<^verbatim>\<open>args.splice(0, 0, x)\<close> inserts \<open>x\<close> in front.
\<close>

definition buildArguments :: "(TargetName \<Rightarrow> bool) \<Rightarrow> BuildOptions \<Rightarrow> string list" where
  "buildArguments isThirdTierTarget options =
     (let args = [''build'', ''--target'', triple (target options)];
          args = (if toLowerCase (configurationName (configuration options)) = ''release''
                  then args @ [''--release''] else args);
          args = (if isThirdTierTarget (target options)
                  then (''+nightly'' # args) @ [''-Z'', ''build-std=std,panic_abort'']
                  else args)
      in args)"

text \<open>
  The environment of the child process: \<^verbatim>\<open>{...process.env, ...targetEnv}\<close>, the
  target's variables over the ambient ones.
\<close>

definition spawnEnvironment :: "world \<Rightarrow> (string \<times> string) list \<Rightarrow> (string \<rightharpoonup> string)" where
  "spawnEnvironment w targetEnv = env w ++ map_of targetEnv"

definition isDynamicLibrary :: "string \<Rightarrow> bool" where
  "isDynamicLibrary file \<longleftrightarrow> endsWith file ''.so'' \<or> endsWith file ''.dylib''"

text \<open>
  The second half of \<^verbatim>\<open>build\<close>, after the external command has returned: the one
  dynamic library of the target's output directory.
\<close>

definition locateDynamicLibrary :: "world \<Rightarrow> BuildOptions \<Rightarrow> error + string" where
  "locateDynamicLibrary w options =
     andThen (joinPathAndAssertExistence w
        [cwd w, ''target'', triple (target options),
         configurationName (configuration options)])
     (\<lambda>targetOutputPath.
     andThen (case readdirSync w targetOutputPath of
                None \<Rightarrow> Inl (FsError targetOutputPath)
              | Some entries \<Rightarrow> Inr entries)
     (\<lambda>entries.
     let dynamicLibraryFile = filter isDynamicLibrary entries in
     if length dynamicLibraryFile = 1
     then joinPathAndAssertExistence w [targetOutputPath, dynamicLibraryFile ! 0]
     else Inl (AssertionError
                 (''Expected a single shared object file in '' @ targetOutputPath))))"

text \<open>
  \<^verbatim>\<open>build\<close>. \<^verbatim>\<open>spawn\<close> runs the external command: it fails, or it leaves the world
  the build has written to, which the rest of the function reads.
\<close>

definition build ::
    "(TargetName \<Rightarrow> bool)
      \<Rightarrow> (string \<Rightarrow> string list \<Rightarrow> (string \<rightharpoonup> string) \<Rightarrow> world \<Rightarrow> error + world)
      \<Rightarrow> world \<Rightarrow> BuildOptions \<Rightarrow> error + string" where
  "build isThirdTierTarget spawn w options =
     (let args = buildArguments isThirdTierTarget options in
      andThen (getTargetEnvironmentVariables w options)
      (\<lambda>targetEnv.
      andThen (spawn ''cargo'' args (spawnEnvironment w targetEnv) w)
      (\<lambda>w'. locateDynamicLibrary w' options)))"

section \<open>The \<^verbatim>\<open>link\<close> command\<close>

datatype PlatformName = AndroidPlatform | ApplePlatform

text \<open>
  What \<^verbatim>\<open>linkModules\<close> returns for a module: a record with \<^verbatim>\<open>outputPath\<close> and
  \<^verbatim>\<open>skipped\<close>, or one with \<^verbatim>\<open>failure\<close>. The action asserts that a failure is a
  \<^verbatim>\<open>SpawnFailure\<close> (a message and the captured output of the process).
\<close>

datatype Failure = SpawnFailure string string | OtherFailure string

datatype ModuleOutput =
    LinkedModule string string bool
  | FailedModule string Failure

fun isFailedModule :: "ModuleOutput \<Rightarrow> bool" where
  "isFailedModule (FailedModule _ _) = True"
| "isFailedModule (LinkedModule _ _ _) = False"

fun isLinkedModule :: "ModuleOutput \<Rightarrow> bool" where
  "isLinkedModule (LinkedModule _ _ _) = True"
| "isLinkedModule (FailedModule _ _) = False"

text \<open>
  What the action does that can be seen from outside: the lines it prints, and its calls
  of \<^verbatim>\<open>pruneLinkedModules\<close> and \<^verbatim>\<open>restoreFrameworkLinks\<close>.
\<close>

datatype Event =
    AutoLinking string
  | NoPlatformSpecified
  | FoundNoModules
  | Skipped string string
  | Linked string string
  | FailedToCopy string
  | FailureMessage string
  | FlushedOutput string
  | PruneCalled PlatformName "ModuleOutput list"
  | RestoreCalled string

record CliState =
  exitCode :: "int option"
  events :: "Event list"

definition emit :: "Event \<Rightarrow> CliState \<Rightarrow> CliState" where
  "emit ev st = st\<lparr>events := events st @ [ev]\<rparr>"

text \<open>The exit status of a process that ends normally: \<^verbatim>\<open>process.exitCode\<close>, or 0.\<close>

definition exitStatus :: "CliState \<Rightarrow> int" where
  "exitStatus st = (case exitCode st of None \<Rightarrow> 0 | Some c \<Rightarrow> c)"

text \<open>
  The functions of other modules that the action calls, each of which may throw:
  \<^verbatim>\<open>linkModules\<close> (by platform, resolved path, \<^verbatim>\<open>incremental\<close> and naming options),
  \<^verbatim>\<open>pruneLinkedModules\<close> and \<^verbatim>\<open>restoreFrameworkLinks\<close>.
\<close>

record Collaborators =
  linkModules ::
    "PlatformName \<Rightarrow> string \<Rightarrow> bool \<Rightarrow> string option \<times> string option
      \<Rightarrow> error + ModuleOutput list"
  pruneLinkedModules :: "PlatformName \<Rightarrow> ModuleOutput list \<Rightarrow> error + unit"
  restoreFrameworkLinks :: "string \<Rightarrow> error + unit"

text \<open>
  The options as the action receives them. \<^verbatim>\<open>--android\<close> and \<^verbatim>\<open>--apple\<close> have no
  default: absent, they are \<^verbatim>\<open>undefined\<close>, which is falsy.
\<close>

record LinkOptions =
  force :: bool
  prune :: bool
  android :: bool
  apple :: bool
  packageName :: "string option"
  pathSuffix :: "string option"

text \<open>
  The command line of \<^verbatim>\<open>link\<close>: what the user gave, \<open>None\<close> where an argument or
  option is absent. The declarations of the command give \<^verbatim>\<open>[path]\<close> the default
  \<^verbatim>\<open>process.cwd()\<close>, \<^verbatim>\<open>--force\<close> the default \<^verbatim>\<open>false\<close> and \<^verbatim>\<open>--prune\<close> the default
  \<^verbatim>\<open>true\<close>.
\<close>

record CommandLine =
  pathArgument :: "string option"
  forceFlag :: "bool option"
  pruneFlag :: "bool option"
  androidFlag :: "bool option"
  appleFlag :: "bool option"
  packageNameOption :: "string option"
  pathSuffixOption :: "string option"

definition withDefault :: "'a \<Rightarrow> 'a option \<Rightarrow> 'a" where
  "withDefault d v = (case v of None \<Rightarrow> d | Some x \<Rightarrow> x)"

definition linkOptions :: "CommandLine \<Rightarrow> LinkOptions" where
  "linkOptions cl =
     \<lparr> force = withDefault False (forceFlag cl),
       prune = withDefault True (pruneFlag cl),
       android = withDefault False (androidFlag cl),
       apple = withDefault False (appleFlag cl),
       packageName = packageNameOption cl,
       pathSuffix = pathSuffixOption cl \<rparr>"

text \<open>The loop over the linked modules: one line for each.\<close>

fun reportLinked :: "ModuleOutput list \<Rightarrow> CliState \<Rightarrow> CliState" where
  "reportLinked [] st = st"
| "reportLinked (LinkedModule originalPath outputPath skipped # rest) st =
     reportLinked rest
       (emit (if skipped then Skipped originalPath outputPath
              else Linked originalPath outputPath) st)"
| "reportLinked (FailedModule _ _ # rest) st = reportLinked rest st"

text \<open>
  The loop over the failures: the assertion, three lines of output, and the exit code.
  An assertion that fails ends the action with the state reached so far.
\<close>

fun reportFailures :: "ModuleOutput list \<Rightarrow> CliState \<Rightarrow> (error + unit) \<times> CliState" where
  "reportFailures [] st = (Inr (), st)"
| "reportFailures (FailedModule originalPath failure # rest) st =
     (case failure of
        OtherFailure _ \<Rightarrow>
          (Inl (AssertionError ''failure instanceof SpawnFailure''), st)
      | SpawnFailure message out \<Rightarrow>
          reportFailures rest
            ((emit (FlushedOutput out)
               (emit (FailureMessage message)
                 (emit (FailedToCopy originalPath) st)))\<lparr>exitCode := Some 1\<rparr>))"
| "reportFailures (LinkedModule _ _ _ # rest) st = reportFailures rest st"

text \<open>The body of the loop over the platforms.\<close>

definition linkPlatform ::
    "Collaborators \<Rightarrow> world \<Rightarrow> string \<Rightarrow> LinkOptions \<Rightarrow> PlatformName \<Rightarrow> CliState
      \<Rightarrow> (error + unit) \<times> CliState" where
  "linkPlatform deps w pathArg opts platformName st =
     (case linkModules deps platformName (path_resolve w [pathArg]) (\<not> force opts)
             (packageName opts, pathSuffix opts) of
        Inl e \<Rightarrow> (Inl e, st)
      | Inr modules \<Rightarrow>
          (let st1 = (if length modules = 0 then emit FoundNoModules st else st);
               failures = filter isFailedModule modules;
               linked = filter isLinkedModule modules;
               st2 = reportLinked linked st1
           in case reportFailures failures st2 of
                (Inl e, st3) \<Rightarrow> (Inl e, st3)
              | (Inr _, st3) \<Rightarrow>
                  if prune opts
                  then (pruneLinkedModules deps platformName modules,
                        emit (PruneCalled platformName modules) st3)
                  else (Inr (), st3)))"

fun linkPlatforms ::
    "Collaborators \<Rightarrow> world \<Rightarrow> string \<Rightarrow> LinkOptions \<Rightarrow> PlatformName list \<Rightarrow> CliState
      \<Rightarrow> (error + unit) \<times> CliState" where
  "linkPlatforms deps w pathArg opts [] st = (Inr (), st)"
| "linkPlatforms deps w pathArg opts (platformName # rest) st =
     (case linkPlatform deps w pathArg opts platformName st of
        (Inl e, st') \<Rightarrow> (Inl e, st')
      | (Inr _, st') \<Rightarrow> linkPlatforms deps w pathArg opts rest st')"

text \<open>
  The restoration of the symbolic links of the three macOS slices. The source starts the
  three under \<^verbatim>\<open>Promise.all\<close>; here they run one after the other, all three, and the
  first failure in the order of the list is the one reported.
\<close>

fun restoreSlices ::
    "Collaborators \<Rightarrow> world \<Rightarrow> string list \<Rightarrow> CliState \<Rightarrow> (error + unit) \<times> CliState" where
  "restoreSlices deps w [] st = (Inr (), st)"
| "restoreSlices deps w (slicePath # rest) st =
     (let frameworkPath = path_join w [slicePath, ''weak-node-api.framework''] in
      if existsSync w frameworkPath then
        (case restoreFrameworkLinks deps frameworkPath of
           Inl e \<Rightarrow> (Inl e, snd (restoreSlices deps w rest (emit (RestoreCalled frameworkPath) st)))
         | Inr _ \<Rightarrow> restoreSlices deps w rest (emit (RestoreCalled frameworkPath) st))
      else restoreSlices deps w rest st)"

definition selectedPlatforms :: "LinkOptions \<Rightarrow> PlatformName list" where
  "selectedPlatforms opts =
     (let platforms = [];
          platforms = (if android opts then platforms @ [AndroidPlatform] else platforms);
          platforms = (if apple opts then platforms @ [ApplePlatform] else platforms)
      in platforms)"

text \<open>The action of \<^verbatim>\<open>link\<close>, inside \<^verbatim>\<open>wrapAction\<close>.\<close>

definition linkAction ::
    "Collaborators \<Rightarrow> world \<Rightarrow> string \<Rightarrow> LinkOptions \<Rightarrow> CliState
      \<Rightarrow> (error + unit) \<times> CliState" where
  "linkAction deps w pathArg opts st0 =
     (let st = emit (AutoLinking pathArg) st0;
          platforms = selectedPlatforms opts
      in if length platforms = 0
         then (Inr (), (emit NoPlatformSpecified st)\<lparr>exitCode := Some 1\<rparr>)
         else
           (case linkPlatforms deps w pathArg opts platforms st of
              (Inl e, st') \<Rightarrow> (Inl e, st')
            | (Inr _, st') \<Rightarrow>
                if apple opts
                then restoreSlices deps w
                       [path_join w [applePrebuildPath w, ''macos-x86_64''],
                        path_join w [applePrebuildPath w, ''macos-arm64''],
                        path_join w [applePrebuildPath w, ''macos-arm64_x86_64'']] st'
                else (Inr (), st')))"

definition linkCommand ::
    "Collaborators \<Rightarrow> world \<Rightarrow> CommandLine \<Rightarrow> CliState \<Rightarrow> (error + unit) \<times> CliState" where
  "linkCommand deps w cl st =
     linkAction deps w (withDefault (cwd w) (pathArgument cl)) (linkOptions cl) st"

text \<open>
  The slices the table marks \<^verbatim>\<open>// Universal\<close>: the architecture component of the
  name, after the first dash, lists both architectures.
\<close>

definition isUniversalSlice :: "string \<Rightarrow> bool" where
  "isUniversalSlice slice =
     (case splitOn CHR ''-'' slice of
        _ # arch # _ \<Rightarrow> arch = ''arm64_x86_64''
      | _ \<Rightarrow> False)"

text \<open>The directories of a target's slices, in the order of the table.\<close>

definition sliceCandidates :: "world \<Rightarrow> AppleTargetName \<Rightarrow> string list" where
  "sliceCandidates w t =
     map (\<lambda>slice. path_join w [applePrebuildPath w, slice])
       (APPLE_XCFRAMEWORK_SLICES_PER_TARGET t)"

text \<open>
  The directory of the prebuilt library that a target links against, and the four link
  flags that name it, as the two branches of \<^verbatim>\<open>getTargetEnvironmentVariables\<close> write
  them.
\<close>

definition libraryDirectory :: "world \<Rightarrow> TargetName \<Rightarrow> error + string" where
  "libraryDirectory w t =
     (case t of
        Android a \<Rightarrow> getWeakNodeApiAndroidLibraryPath w a
      | Apple a \<Rightarrow> getWeakNodeApiFrameworkPath w a)"

definition linkFlags :: "TargetName \<Rightarrow> string \<Rightarrow> string list" where
  "linkFlags t dir =
     (case t of
        Android _ \<Rightarrow> [''-L'', dir, ''-l'', ''weak-node-api'']
      | Apple _ \<Rightarrow> [''-L'', ''framework='' @ dir, ''-l'', ''framework=weak-node-api''])"

text \<open>
  The report of one platform, written out: a line when there are no modules, a line for
  each linked module, three lines for each failed one, and the call of the pruner.
\<close>

fun linkedLines :: "ModuleOutput list \<Rightarrow> Event list" where
  "linkedLines [] = []"
| "linkedLines (LinkedModule originalPath outputPath skipped # rest) =
     (if skipped then Skipped originalPath outputPath else Linked originalPath outputPath)
     # linkedLines rest"
| "linkedLines (FailedModule _ _ # rest) = linkedLines rest"

fun failureLines :: "ModuleOutput list \<Rightarrow> Event list" where
  "failureLines [] = []"
| "failureLines (FailedModule originalPath (SpawnFailure message out) # rest) =
     [FailedToCopy originalPath, FailureMessage message, FlushedOutput out]
     @ failureLines rest"
| "failureLines (_ # rest) = failureLines rest"

definition platformReport :: "bool \<Rightarrow> PlatformName \<Rightarrow> ModuleOutput list \<Rightarrow> Event list" where
  "platformReport pruning platformName modules =
     (if modules = [] then [FoundNoModules] else [])
     @ linkedLines modules @ failureLines modules
     @ (if pruning then [PruneCalled platformName modules] else [])"

text \<open>A failure record holds a \<^verbatim>\<open>SpawnFailure\<close>, as \<^verbatim>\<open>linkModules\<close> makes them.\<close>

fun holdsSpawnFailure :: "ModuleOutput \<Rightarrow> bool" where
  "holdsSpawnFailure (FailedModule _ (OtherFailure _)) = False"
| "holdsSpawnFailure _ = True"

text \<open>
  The collaborators work: \<^verbatim>\<open>linkModules\<close> returns, for each platform of the list, the
  modules that \<open>results\<close> gives, and the pruner returns when it is called.
\<close>

definition collaboratorsReturn ::
    "Collaborators \<Rightarrow> world \<Rightarrow> string \<Rightarrow> LinkOptions \<Rightarrow> PlatformName list
      \<Rightarrow> (PlatformName \<Rightarrow> ModuleOutput list) \<Rightarrow> bool" where
  "collaboratorsReturn deps w pathArg opts platforms results \<longleftrightarrow>
     (\<forall>p \<in> set platforms.
        linkModules deps p (path_resolve w [pathArg]) (\<not> force opts)
          (packageName opts, pathSuffix opts) = Inr (results p)
        \<and> (\<forall>m \<in> set (results p). holdsSpawnFailure m)
        \<and> (prune opts \<longrightarrow> pruneLinkedModules deps p (results p) = Inr ()))"

text \<open>The first line that the report has for a module.\<close>

fun moduleLine :: "ModuleOutput \<Rightarrow> Event" where
  "moduleLine (LinkedModule originalPath outputPath skipped) =
     (if skipped then Skipped originalPath outputPath else Linked originalPath outputPath)"
| "moduleLine (FailedModule originalPath _) = FailedToCopy originalPath"

section \<open>A POSIX host\<close>

text \<open>
  \<^verbatim>\<open>path.join\<close> as Node implements it on POSIX: the non-empty segments joined with a
  slash, then normalised (empty and \<open>.\<close> components dropped, \<open>..\<close> resolved, a
  trailing slash kept). The functions above take \<^verbatim>\<open>path.join\<close> from the world; this
  is the instance the examples run on.
\<close>

fun normalizeSegments :: "bool \<Rightarrow> string list \<Rightarrow> string list \<Rightarrow> string list" where
  "normalizeSegments allowAboveRoot res [] = rev res"
| "normalizeSegments allowAboveRoot res (s # ss) =
     (if s = [] \<or> s = ''.'' then normalizeSegments allowAboveRoot res ss
      else if s = ''..'' then
        (case res of
           [] \<Rightarrow> normalizeSegments allowAboveRoot
                   (if allowAboveRoot then [''..''] else []) ss
         | r # rs \<Rightarrow>
             if r \<noteq> ''..'' then normalizeSegments allowAboveRoot rs ss
             else normalizeSegments allowAboveRoot
                    (if allowAboveRoot then ''..'' # res else res) ss)
      else normalizeSegments allowAboveRoot (s # res) ss)"

definition posixNormalize :: "string \<Rightarrow> string" where
  "posixNormalize p =
     (case p of
        [] \<Rightarrow> ''.''
      | c # _ \<Rightarrow>
          (let isAbsolute = (c = CHR ''/'');
               trailingSeparator = (last p = CHR ''/'');
               body = joinWith ''/''
                        (normalizeSegments (\<not> isAbsolute) [] (splitOn CHR ''/'' p))
           in if body = [] then
                (if isAbsolute then ''/'' else if trailingSeparator then ''./'' else ''.'')
              else (if isAbsolute then ''/'' else [])
                   @ body @ (if trailingSeparator then ''/'' else [])))"

definition posixJoin :: "string list \<Rightarrow> string" where
  "posixJoin segments =
     (let joined = joinWith ''/'' (filter (\<lambda>s. s \<noteq> []) segments)
      in if joined = [] then ''.'' else posixNormalize joined)"

text \<open>
  \<^verbatim>\<open>path.resolve\<close> on POSIX: the segments are taken from the right until one is
  absolute, the working directory standing in front of them all, and the result is
  normalised without a trailing slash.
\<close>

fun resolveSegments :: "string list \<Rightarrow> string \<Rightarrow> string" where
  "resolveSegments [] resolvedPath = resolvedPath"
| "resolveSegments (p # ps) resolvedPath =
     (case p of
        [] \<Rightarrow> resolveSegments ps resolvedPath
      | c # _ \<Rightarrow>
          if c = CHR ''/'' then p @ ''/'' @ resolvedPath
          else resolveSegments ps (p @ ''/'' @ resolvedPath))"

definition posixResolve :: "string \<Rightarrow> string list \<Rightarrow> string" where
  "posixResolve workingDirectory segments =
     (let resolvedPath = resolveSegments (rev segments @ [workingDirectory]) [];
          resolvedAbsolute = (case resolvedPath of [] \<Rightarrow> False | c # _ \<Rightarrow> c = CHR ''/'');
          body = joinWith ''/''
                   (normalizeSegments (\<not> resolvedAbsolute) [] (splitOn CHR ''/'' resolvedPath))
      in if resolvedAbsolute then ''/'' @ body
         else if body = [] then ''.'' else body)"

text \<open>
  A Linux build host: the Android SDK under \<open>/sdk\<close> with NDK 27.1 and one LLVM
  toolchain, \<^verbatim>\<open>weak-node-api\<close> installed under \<open>/wna\<close> with the Android library of
  arm64, both macOS slices of the arm64 target and the arm64 slice of the iOS simulator,
  and the crate in \<open>/app\<close>.
\<close>

definition hostFiles :: "string list" where
  "hostFiles =
     [''/sdk'', ''/sdk/ndk/27.1'',
      ''/sdk/ndk/27.1/toolchains/llvm/prebuilt/linux-x86_64/bin/aarch64-linux-android24-clang'',
      ''/sdk/ndk/27.1/toolchains/llvm/prebuilt/linux-x86_64/bin/armv7a-linux-androideabi24-clang'',
      ''/sdk/ndk/27.1/toolchains/llvm/prebuilt/linux-x86_64/bin/x86_64-linux-android24-clang'',
      ''/sdk/ndk/27.1/toolchains/llvm/prebuilt/linux-x86_64/bin/i686-linux-android24-clang'',
      ''/sdk/ndk/27.1/toolchains/llvm/prebuilt/linux-x86_64/bin/aarch64-linux-android24-clang++'',
      ''/sdk/ndk/27.1/toolchains/llvm/prebuilt/linux-x86_64/bin/llvm-ar'',
      ''/sdk/ndk/27.1/toolchains/llvm/prebuilt/linux-x86_64/bin/llvm-ranlib'',
      ''/wna/build/Release/weak-node-api.android.node/arm64-v8a'',
      ''/wna/build/Release/weak-node-api.xcframework/macos-arm64_x86_64'',
      ''/wna/build/Release/weak-node-api.xcframework/macos-arm64'',
      ''/wna/build/Release/weak-node-api.xcframework/ios-arm64-simulator'']"

definition hostDirectories :: "(string \<times> string list) list" where
  "hostDirectories =
     [(''/sdk/ndk/27.1/toolchains/llvm/prebuilt'', [''linux-x86_64''])]"

definition linuxHost :: world where
  "linuxHost =
     \<lparr> env = map_of [(''ANDROID_HOME'', ''/sdk''), (''PATH'', ''/usr/bin''),
                      (''HOME'', ''/root'')],
       platform = ''linux'',
       cwd = ''/app'',
       existsSync = (\<lambda>p. p \<in> set hostFiles),
       readdirSync = map_of hostDirectories,
       path_join = posixJoin,
       path_resolve = posixResolve ''/app'',
       weakNodeApiDirname = ''/wna/dist'' \<rparr>"

definition arm64AndroidOptions :: BuildOptions where
  "arm64AndroidOptions =
     \<lparr> configuration = Debug, target = Android Aarch64LinuxAndroid,
       ndkVersion = Some ''27.1'', androidApiLevel = Some 24 \<rparr>"

definition arm64MacOptions :: BuildOptions where
  "arm64MacOptions =
     \<lparr> configuration = Release, target = Apple Aarch64AppleDarwin,
       ndkVersion = None, androidApiLevel = None \<rparr>"

definition arm64AndroidEnvironment :: "(string \<times> string) list" where
  "arm64AndroidEnvironment =
     [(''CARGO_ENCODED_RUSTFLAGS'',
         ''-L'' @ [CHR 0x1F] @ ''/wna/build/Release/weak-node-api.android.node/arm64-v8a'' @ [CHR 0x1F] @ ''-l'' @ [CHR 0x1F]
           @ ''weak-node-api''),
      (''CARGO_TARGET_AARCH64_LINUX_ANDROID_LINKER'',
         ''/sdk/ndk/27.1/toolchains/llvm/prebuilt/linux-x86_64/bin/aarch64-linux-android24-clang''),
      (''CARGO_TARGET_ARMV7_LINUX_ANDROIDEABI_LINKER'',
         ''/sdk/ndk/27.1/toolchains/llvm/prebuilt/linux-x86_64/bin/armv7a-linux-androideabi24-clang''),
      (''CARGO_TARGET_X86_64_LINUX_ANDROID_LINKER'',
         ''/sdk/ndk/27.1/toolchains/llvm/prebuilt/linux-x86_64/bin/x86_64-linux-android24-clang''),
      (''CARGO_TARGET_I686_LINUX_ANDROID_LINKER'',
         ''/sdk/ndk/27.1/toolchains/llvm/prebuilt/linux-x86_64/bin/i686-linux-android24-clang''),
      (''TARGET_CC'',
         ''/sdk/ndk/27.1/toolchains/llvm/prebuilt/linux-x86_64/bin/aarch64-linux-android24-clang''),
      (''TARGET_CXX'',
         ''/sdk/ndk/27.1/toolchains/llvm/prebuilt/linux-x86_64/bin/aarch64-linux-android24-clang++''),
      (''TARGET_AR'', ''/sdk/ndk/27.1/toolchains/llvm/prebuilt/linux-x86_64/bin/llvm-ar''),
      (''TARGET_RANLIB'',
         ''/sdk/ndk/27.1/toolchains/llvm/prebuilt/linux-x86_64/bin/llvm-ranlib''),
      (''ANDROID_NDK'', ''/sdk/ndk/27.1''),
      (''PATH'', ''/sdk/ndk/27.1/toolchains/llvm/prebuilt/linux-x86_64/bin:/usr/bin'')]"

text \<open>
  A \<^verbatim>\<open>cargo\<close> that succeeds and leaves, in the output directory of the arm64 Android
  debug build, the given entries.
\<close>

definition cargoLeaves ::
    "string list \<Rightarrow> string \<Rightarrow> string list \<Rightarrow> (string \<rightharpoonup> string) \<Rightarrow> world \<Rightarrow> error + world" where
  "cargoLeaves entries command args environment w =
     Inr (w\<lparr> existsSync := (\<lambda>p. existsSync w p
                 \<or> p = ''/app/target/aarch64-linux-android/debug''
                 \<or> p \<in> set (map (\<lambda>entry. ''/app/target/aarch64-linux-android/debug/'' @ entry)
                              entries)),
             readdirSync := (readdirSync w)
                 (''/app/target/aarch64-linux-android/debug'' \<mapsto> entries) \<rparr>)"

definition visionTier :: "TargetName \<Rightarrow> bool" where
  "visionTier t \<longleftrightarrow> t = Apple Aarch64AppleVisionos \<or> t = Apple Aarch64AppleVisionosSim"

text \<open>
  The same host with \<^verbatim>\<open>weak-node-api\<close> installed under a directory whose name holds
  the character U+001F, and only the arm64 macOS slice built.
\<close>

definition separatorHost :: world where
  "separatorHost =
     linuxHost\<lparr> weakNodeApiDirname := ''/w'' @ [CHR 0x1F] @ ''a/dist'',
                existsSync := (\<lambda>p. p = ''/w'' @ [CHR 0x1F]
                  @ ''a/build/Release/weak-node-api.xcframework/macos-arm64'') \<rparr>"

text \<open>The same host with another \<^verbatim>\<open>PATH\<close>.\<close>

definition otherPathHost :: world where
  "otherPathHost = linuxHost\<lparr> env := (env linuxHost)(''PATH'' \<mapsto> ''/opt/bin'') \<rparr>"

text \<open>The same host, started in another directory and with another \<^verbatim>\<open>HOME\<close>.\<close>

definition otherDirectoryHost :: world where
  "otherDirectoryHost =
     linuxHost\<lparr> cwd := ''/elsewhere'',
                path_resolve := posixResolve ''/elsewhere'',
                env := (env linuxHost)(''HOME'' \<mapsto> ''/home/dev'') \<rparr>"

text \<open>
  An application with three Android modules, the second of which fails to copy, and no
  Apple module.
\<close>

definition androidModules :: "ModuleOutput list" where
  "androidModules =
     [LinkedModule ''/app/node_modules/a/a.android.node'' ''/app/out/a.android.node'' False,
      FailedModule ''/app/node_modules/b/b.android.node''
        (SpawnFailure ''cp exited with 1'' ''No space left on device''),
      LinkedModule ''/app/node_modules/c/c.android.node'' ''/app/out/c.android.node'' True]"

definition exampleResults :: "PlatformName \<Rightarrow> ModuleOutput list" where
  "exampleResults p = (case p of AndroidPlatform \<Rightarrow> androidModules | ApplePlatform \<Rightarrow> [])"

definition exampleCollaborators :: Collaborators where
  "exampleCollaborators =
     \<lparr> linkModules = (\<lambda>p fromPath incremental naming. Inr (exampleResults p)),
       pruneLinkedModules = (\<lambda>p modules. Inr ()),
       restoreFrameworkLinks = (\<lambda>frameworkPath. Inr ()) \<rparr>"

definition bothPlatforms :: CommandLine where
  "bothPlatforms =
     \<lparr> pathArgument = None, forceFlag = None, pruneFlag = None,
       androidFlag = Some True, appleFlag = Some True,
       packageNameOption = None, pathSuffixOption = None \<rparr>"

definition noPlatform :: CommandLine where
  "noPlatform =
     \<lparr> pathArgument = Some ''/app'', forceFlag = None, pruneFlag = None,
       androidFlag = None, appleFlag = None,
       packageNameOption = None, pathSuffixOption = None \<rparr>"

definition freshState :: CliState where
  "freshState = \<lparr> exitCode = None, events = [] \<rparr>"

section \<open>Properties\<close>

lemma splitOn_not_Nil: "splitOn sep s \<noteq> []"
  by (induction s) (auto split: list.splits)

lemma firstComponent_defined: "\<exists>x. firstComponent s = Some x"
  using splitOn_not_Nil [of "CHR ''-''" s]
  by (cases "splitOn CHR ''-'' s") (auto simp: firstComponent_def)

text \<open>
  Claim C5. \<^verbatim>\<open>getTargetAndroidArch\<close> gives the compiler prefix \<open>armv7a\<close> for the
  32-bit ARM target, whose triple begins with \<open>armv7\<close>, and for every other Android
  target the first dash-separated component of the triple, unchanged;
  \<^verbatim>\<open>getTargetAndroidPlatform\<close> gives \<open>androideabi24\<close> for that one target and
  \<open>android24\<close> for all others.
\<close>

theorem android_arch_and_platform:
  "(t = Armv7LinuxAndroideabi \<longrightarrow>
      getTargetAndroidArch t = Some ''armv7a''
      \<and> firstComponent (androidTriple t) = Some ''armv7''
      \<and> getTargetAndroidPlatform t = ''androideabi24'')
   \<and> (t \<noteq> Armv7LinuxAndroideabi \<longrightarrow>
      getTargetAndroidArch t = firstComponent (androidTriple t)
      \<and> getTargetAndroidArch t \<noteq> None
      \<and> getTargetAndroidPlatform t = ''android24'')"
  by (cases t)
     (simp_all add: getTargetAndroidArch_def getTargetAndroidPlatform_def
        firstComponent_def)

theorem android_arch_and_platform_witness:
  "getTargetAndroidArch Armv7LinuxAndroideabi = Some ''armv7a''
   \<and> getTargetAndroidPlatform Armv7LinuxAndroideabi = ''androideabi24''
   \<and> X8664LinuxAndroid \<noteq> Armv7LinuxAndroideabi
   \<and> getTargetAndroidArch X8664LinuxAndroid = Some ''x86_64''
   \<and> getTargetAndroidPlatform X8664LinuxAndroid = ''android24''"
  using android_arch_and_platform [of Armv7LinuxAndroideabi]
    android_arch_and_platform [of X8664LinuxAndroid]
  by (simp add: firstComponent_def)


subsection \<open>Results that are not errors\<close>

lemma andThen_Inr_iff: "andThen m f = Inr y \<longleftrightarrow> (\<exists>x. m = Inr x \<and> f x = Inr y)"
  by (cases m) (simp_all add: andThen_def)

lemma assertString_Inr_iff: "assertString v e = Inr s \<longleftrightarrow> v = Some s \<and> s \<noteq> []"
  by (auto simp: assertString_def split: option.splits)

lemma joinPathAndAssertExistence_Inr_iff:
  "joinPathAndAssertExistence w segs = Inr p \<longleftrightarrow> p = path_join w segs \<and> existsSync w p"
  by (auto simp: joinPathAndAssertExistence_def Let_def)

lemma linuxHost_arm64_android:
  "getTargetEnvironmentVariables linuxHost arm64AndroidOptions = Inr arm64AndroidEnvironment"
  by code_simp

subsection \<open>The environment of an Android target\<close>

text \<open>
  Claim C1. For every Android target, the mapping that
  \<^verbatim>\<open>getTargetEnvironmentVariables\<close> returns holds the linker variable of each of the
  four Android architectures, whichever one is requested, each a compiler of the
  toolchain's \<open>bin\<close> directory at the requested API level; \<^verbatim>\<open>TARGET_CC\<close>,
  \<^verbatim>\<open>TARGET_CXX\<close>, \<^verbatim>\<open>TARGET_AR\<close> and \<^verbatim>\<open>TARGET_RANLIB\<close> for the requested target; and a
  \<^verbatim>\<open>PATH\<close> that puts the toolchain's \<open>bin\<close> directory and a colon in front of the
  ambient \<^verbatim>\<open>PATH\<close>.
\<close>

theorem android_environment_variables:
  assumes "target options = Android t"
    and "getTargetEnvironmentVariables w options = Inr e"
  shows "\<exists>home ndk bin.
      env w ''ANDROID_HOME'' = Some home \<and> ndkVersion options = Some ndk
    \<and> getLLVMToolchainBinPath w (path_join w [home, ''ndk'', ndk]) = Inr bin
    \<and> map fst e =
        [''CARGO_ENCODED_RUSTFLAGS'',
         ''CARGO_TARGET_AARCH64_LINUX_ANDROID_LINKER'',
         ''CARGO_TARGET_ARMV7_LINUX_ANDROIDEABI_LINKER'',
         ''CARGO_TARGET_X86_64_LINUX_ANDROID_LINKER'',
         ''CARGO_TARGET_I686_LINUX_ANDROID_LINKER'',
         ''TARGET_CC'', ''TARGET_CXX'', ''TARGET_AR'', ''TARGET_RANLIB'',
         ''ANDROID_NDK'', ''PATH'']
    \<and> (let level = showMaybe showInt (androidApiLevel options);
            cmdMaybe = (if platform w = ''win32'' then ''.cmd'' else []);
            exeMaybe = (if platform w = ''win32'' then ''.exe'' else []);
            compiler = showMaybe id (getTargetAndroidArch t) @ ''-linux-''
                         @ getTargetAndroidPlatform t
        in map_of e ''CARGO_TARGET_AARCH64_LINUX_ANDROID_LINKER'' =
             Some (path_join w
                     [bin, ''aarch64-linux-android'' @ level @ ''-clang'' @ cmdMaybe])
         \<and> map_of e ''CARGO_TARGET_ARMV7_LINUX_ANDROIDEABI_LINKER'' =
             Some (path_join w
                     [bin, ''armv7a-linux-androideabi'' @ level @ ''-clang'' @ cmdMaybe])
         \<and> map_of e ''CARGO_TARGET_X86_64_LINUX_ANDROID_LINKER'' =
             Some (path_join w
                     [bin, ''x86_64-linux-android'' @ level @ ''-clang'' @ cmdMaybe])
         \<and> map_of e ''CARGO_TARGET_I686_LINUX_ANDROID_LINKER'' =
             Some (path_join w
                     [bin, ''i686-linux-android'' @ level @ ''-clang'' @ cmdMaybe])
         \<and> map_of e ''TARGET_CC'' =
             Some (path_join w [bin, compiler @ ''-clang'' @ cmdMaybe])
         \<and> map_of e ''TARGET_CXX'' =
             Some (path_join w [bin, compiler @ ''-clang++'' @ cmdMaybe])
         \<and> map_of e ''TARGET_AR'' = Some (path_join w [bin, ''llvm-ar'' @ exeMaybe])
         \<and> map_of e ''TARGET_RANLIB'' = Some (path_join w [bin, ''llvm-ranlib'' @ exeMaybe])
         \<and> map_of e ''PATH'' = Some (bin @ '':'' @ showMaybe id (env w ''PATH'')))"
proof -
  from assms
  have "androidEnvironment w t (ndkVersion options) (androidApiLevel options) = Inr e"
    by (simp add: getTargetEnvironmentVariables_def)
  then show ?thesis
    unfolding androidEnvironment_def Let_def andThen_Inr_iff assertString_Inr_iff
      joinPathAndAssertExistence_Inr_iff
    by (auto split: option.splits if_splits)
qed

theorem android_environment_variables_witness:
  "target arm64AndroidOptions = Android Aarch64LinuxAndroid
   \<and> getTargetEnvironmentVariables linuxHost arm64AndroidOptions
       = Inr arm64AndroidEnvironment
   \<and> map_of arm64AndroidEnvironment ''CARGO_TARGET_I686_LINUX_ANDROID_LINKER'' =
       Some (posixJoin [''/sdk/ndk/27.1/toolchains/llvm/prebuilt/linux-x86_64/bin'',
                        ''i686-linux-android24-clang''])
   \<and> map_of arm64AndroidEnvironment ''PATH'' =
       Some ''/sdk/ndk/27.1/toolchains/llvm/prebuilt/linux-x86_64/bin:/usr/bin''"
proof -
  have t: "target arm64AndroidOptions = Android Aarch64LinuxAndroid"
    by (simp add: arm64AndroidOptions_def)
  have bin: "getLLVMToolchainBinPath linuxHost (posixJoin [''/sdk'', ''ndk'', ''27.1''])
      = Inr ''/sdk/ndk/27.1/toolchains/llvm/prebuilt/linux-x86_64/bin''"
    by code_simp
  have facts: "env linuxHost ''ANDROID_HOME'' = Some ''/sdk''"
    "env linuxHost ''PATH'' = Some ''/usr/bin''"
    "ndkVersion arm64AndroidOptions = Some ''27.1''"
    "androidApiLevel arm64AndroidOptions = Some 24"
    "platform linuxHost = ''linux''" "path_join linuxHost = posixJoin"
    by (simp_all add: linuxHost_def arm64AndroidOptions_def)
  have level: "showInt 24 = ''24''"
    by code_simp
  from android_environment_variables [OF t linuxHost_arm64_android]
  show ?thesis
    using t linuxHost_arm64_android bin
    by (auto simp: facts level Let_def showMaybe_def)
qed


subsection \<open>The slice of an Apple target\<close>

lemma slices_not_empty: "s \<in> set (APPLE_XCFRAMEWORK_SLICES_PER_TARGET t) \<Longrightarrow> s \<noteq> []"
  by (cases t) auto

lemma universal_slice_first:
  "1 < length (APPLE_XCFRAMEWORK_SLICES_PER_TARGET t) \<Longrightarrow>
     isUniversalSlice (hd (APPLE_XCFRAMEWORK_SLICES_PER_TARGET t))
     \<and> (\<forall>s \<in> set (tl (APPLE_XCFRAMEWORK_SLICES_PER_TARGET t)). \<not> isUniversalSlice s)"
  by (cases t) (simp_all add: isUniversalSlice_def)

lemma frameworkPath_Inr_find:
  "getWeakNodeApiFrameworkPath w t = Inr p \<longleftrightarrow>
     (\<exists>i < length (APPLE_XCFRAMEWORK_SLICES_PER_TARGET t).
        p = path_join w [applePrebuildPath w, APPLE_XCFRAMEWORK_SLICES_PER_TARGET t ! i]
        \<and> existsSync w p
        \<and> (\<forall>j < i. \<not> existsSync w
              (path_join w [applePrebuildPath w, APPLE_XCFRAMEWORK_SLICES_PER_TARGET t ! j])))"
  unfolding getWeakNodeApiFrameworkPath_def Let_def andThen_Inr_iff assertString_Inr_iff
    joinPathAndAssertExistence_Inr_iff find_Some_iff
  using slices_not_empty [of _ t] by (auto simp: nth_mem)

lemma frameworkPath_Inr_iff:
  "getWeakNodeApiFrameworkPath w t = Inr p \<longleftrightarrow>
     (\<exists>i < length (sliceCandidates w t).
        p = sliceCandidates w t ! i \<and> existsSync w p
        \<and> (\<forall>j < i. \<not> existsSync w (sliceCandidates w t ! j)))"
  unfolding frameworkPath_Inr_find sliceCandidates_def by auto

lemma frameworkPath_none:
  assumes "\<forall>c \<in> set (sliceCandidates w t). \<not> existsSync w c"
  shows "getWeakNodeApiFrameworkPath w t =
     Inl (AssertionError
            (''No matching slice found in weak-node-api.xcframework for target ''
             @ appleTriple t))"
proof -
  have "List.find (\<lambda>slice. existsSync w (path_join w [applePrebuildPath w, slice]))
          (APPLE_XCFRAMEWORK_SLICES_PER_TARGET t) = None"
    using assms by (simp add: find_None_iff sliceCandidates_def)
  then show ?thesis
    by (simp add: getWeakNodeApiFrameworkPath_def assertString_def andThen_def)
qed

lemma frameworkPath_first:
  assumes "1 < length (APPLE_XCFRAMEWORK_SLICES_PER_TARGET t)"
    and "existsSync w (hd (sliceCandidates w t))"
  shows "getWeakNodeApiFrameworkPath w t = Inr (hd (sliceCandidates w t))"
proof -
  from assms(1) have len: "0 < length (sliceCandidates w t)"
    by (auto simp: sliceCandidates_def)
  then have "hd (sliceCandidates w t) = sliceCandidates w t ! 0"
    by (simp add: hd_conv_nth)
  with assms(2) len show ?thesis
    unfolding frameworkPath_Inr_iff by (intro exI [of _ 0]) simp
qed

text \<open>
  Claim C2. \<^verbatim>\<open>getWeakNodeApiFrameworkPath\<close> returns the first directory, in the order
  of the target's list of slices, that exists on disk; a list with more than one slice
  has its universal slice first and no other universal slice, so the universal slice is
  the result whenever it exists; and when no slice of the target exists the function
  fails with the assertion error that no matching slice was found.
\<close>

theorem apple_slice_selection:
  "(getWeakNodeApiFrameworkPath w t = Inr p \<longleftrightarrow>
      (\<exists>i < length (sliceCandidates w t).
         p = sliceCandidates w t ! i \<and> existsSync w p
         \<and> (\<forall>j < i. \<not> existsSync w (sliceCandidates w t ! j))))
   \<and> (1 < length (APPLE_XCFRAMEWORK_SLICES_PER_TARGET t) \<longrightarrow>
        isUniversalSlice (hd (APPLE_XCFRAMEWORK_SLICES_PER_TARGET t))
        \<and> (\<forall>s \<in> set (tl (APPLE_XCFRAMEWORK_SLICES_PER_TARGET t)). \<not> isUniversalSlice s)
        \<and> (existsSync w (hd (sliceCandidates w t)) \<longrightarrow>
             getWeakNodeApiFrameworkPath w t = Inr (hd (sliceCandidates w t))))
   \<and> ((\<forall>c \<in> set (sliceCandidates w t). \<not> existsSync w c) \<longrightarrow>
        getWeakNodeApiFrameworkPath w t =
          Inl (AssertionError
                 (''No matching slice found in weak-node-api.xcframework for target ''
                  @ appleTriple t)))"
  using frameworkPath_Inr_iff [of w t p] universal_slice_first [of t]
    frameworkPath_first [of t w] frameworkPath_none [of w t]
  by blast

theorem apple_slice_selection_witness:
  "sliceCandidates linuxHost Aarch64AppleDarwin =
     [''/wna/build/Release/weak-node-api.xcframework/macos-arm64_x86_64'', ''/wna/build/Release/weak-node-api.xcframework/macos-arm64'']
   \<and> existsSync linuxHost ''/wna/build/Release/weak-node-api.xcframework/macos-arm64_x86_64''
   \<and> existsSync linuxHost ''/wna/build/Release/weak-node-api.xcframework/macos-arm64''
   \<and> isUniversalSlice ''macos-arm64_x86_64'' \<and> \<not> isUniversalSlice ''macos-arm64''
   \<and> getWeakNodeApiFrameworkPath linuxHost Aarch64AppleDarwin
       = Inr ''/wna/build/Release/weak-node-api.xcframework/macos-arm64_x86_64''
   \<and> sliceCandidates linuxHost Aarch64AppleIosSim =
       [''/wna/build/Release/weak-node-api.xcframework/ios-arm64_x86_64-simulator'', ''/wna/build/Release/weak-node-api.xcframework/ios-arm64-simulator'']
   \<and> \<not> existsSync linuxHost ''/wna/build/Release/weak-node-api.xcframework/ios-arm64_x86_64-simulator''
   \<and> existsSync linuxHost ''/wna/build/Release/weak-node-api.xcframework/ios-arm64-simulator''
   \<and> getWeakNodeApiFrameworkPath linuxHost Aarch64AppleIosSim
       = Inr ''/wna/build/Release/weak-node-api.xcframework/ios-arm64-simulator''
   \<and> sliceCandidates linuxHost Aarch64AppleTvos = [''/wna/build/Release/weak-node-api.xcframework/tvos-arm64'']
   \<and> \<not> existsSync linuxHost ''/wna/build/Release/weak-node-api.xcframework/tvos-arm64''
   \<and> getWeakNodeApiFrameworkPath linuxHost Aarch64AppleTvos
       = Inl (AssertionError
           ''No matching slice found in weak-node-api.xcframework for target aarch64-apple-tvos'')"
proof -
  have mac: "sliceCandidates linuxHost Aarch64AppleDarwin =
     [''/wna/build/Release/weak-node-api.xcframework/macos-arm64_x86_64'', ''/wna/build/Release/weak-node-api.xcframework/macos-arm64'']"
    by code_simp
  have sim: "sliceCandidates linuxHost Aarch64AppleIosSim =
       [''/wna/build/Release/weak-node-api.xcframework/ios-arm64_x86_64-simulator'', ''/wna/build/Release/weak-node-api.xcframework/ios-arm64-simulator'']"
    by code_simp
  have tv: "sliceCandidates linuxHost Aarch64AppleTvos = [''/wna/build/Release/weak-node-api.xcframework/tvos-arm64'']"
    by code_simp
  have ex: "existsSync linuxHost ''/wna/build/Release/weak-node-api.xcframework/macos-arm64_x86_64''"
    "existsSync linuxHost ''/wna/build/Release/weak-node-api.xcframework/macos-arm64''"
    "\<not> existsSync linuxHost ''/wna/build/Release/weak-node-api.xcframework/ios-arm64_x86_64-simulator''"
    "existsSync linuxHost ''/wna/build/Release/weak-node-api.xcframework/ios-arm64-simulator''"
    "\<not> existsSync linuxHost ''/wna/build/Release/weak-node-api.xcframework/tvos-arm64''"
    by (simp_all add: linuxHost_def hostFiles_def)
  have uni: "isUniversalSlice ''macos-arm64_x86_64''" "\<not> isUniversalSlice ''macos-arm64''"
    by (simp_all add: isUniversalSlice_def)
  have r1: "getWeakNodeApiFrameworkPath linuxHost Aarch64AppleDarwin
       = Inr ''/wna/build/Release/weak-node-api.xcframework/macos-arm64_x86_64''"
    using apple_slice_selection [of linuxHost Aarch64AppleDarwin] ex by (simp add: mac)
  have "\<exists>i < length (sliceCandidates linuxHost Aarch64AppleIosSim).
           ''/wna/build/Release/weak-node-api.xcframework/ios-arm64-simulator'' = sliceCandidates linuxHost Aarch64AppleIosSim ! i
           \<and> existsSync linuxHost ''/wna/build/Release/weak-node-api.xcframework/ios-arm64-simulator''
           \<and> (\<forall>j < i. \<not> existsSync linuxHost
                          (sliceCandidates linuxHost Aarch64AppleIosSim ! j))"
    using ex by (intro exI [of _ 1]) (simp add: sim)
  then have r2: "getWeakNodeApiFrameworkPath linuxHost Aarch64AppleIosSim
       = Inr ''/wna/build/Release/weak-node-api.xcframework/ios-arm64-simulator''"
    using apple_slice_selection
      [of linuxHost Aarch64AppleIosSim "''/wna/build/Release/weak-node-api.xcframework/ios-arm64-simulator''"]
    by blast
  have r3: "getWeakNodeApiFrameworkPath linuxHost Aarch64AppleTvos
       = Inl (AssertionError
           ''No matching slice found in weak-node-api.xcframework for target aarch64-apple-tvos'')"
    using apple_slice_selection [of linuxHost Aarch64AppleTvos] ex by (simp add: tv)
  show ?thesis
    using mac sim tv ex uni r1 r2 r3 by simp
qed


subsection \<open>The arguments of the build\<close>

lemma toLowerCase_configurationName:
  "toLowerCase (configurationName c) = ''release'' \<longleftrightarrow> c = Release"
  by (cases c) (simp_all add: toLowerCase_def lowerChar_def)

text \<open>
  Claim C4. The arguments of the build command are \<open>build\<close>, \<open>--target\<close> and the
  triple, then \<open>--release\<close> exactly when the configuration is release; for a third-tier
  target \<open>+nightly\<close> stands before all of them and \<open>-Z\<close>, \<open>build-std=std,panic_abort\<close>
  after all of them.
\<close>

theorem build_arguments_order:
  "buildArguments isThirdTierTarget options =
     (if isThirdTierTarget (target options) then [''+nightly''] else [])
     @ [''build'', ''--target'', triple (target options)]
     @ (if configuration options = Release then [''--release''] else [])
     @ (if isThirdTierTarget (target options)
        then [''-Z'', ''build-std=std,panic_abort''] else [])"
  by (simp add: buildArguments_def Let_def toLowerCase_configurationName)

theorem build_arguments_order_witness:
  "buildArguments visionTier
     \<lparr> configuration = Release, target = Apple Aarch64AppleVisionos,
       ndkVersion = None, androidApiLevel = None \<rparr>
     = [''+nightly'', ''build'', ''--target'', ''aarch64-apple-visionos'', ''--release'',
        ''-Z'', ''build-std=std,panic_abort'']
   \<and> buildArguments visionTier arm64AndroidOptions
     = [''build'', ''--target'', ''aarch64-linux-android'']"
  using build_arguments_order [of visionTier
      "\<lparr> configuration = Release, target = Apple Aarch64AppleVisionos,
         ndkVersion = None, androidApiLevel = None \<rparr>"]
    build_arguments_order [of visionTier arm64AndroidOptions]
  by (simp add: visionTier_def arm64AndroidOptions_def)

subsection \<open>The output of the build\<close>

lemma endsWith_iff: "endsWith s suf \<longleftrightarrow> (\<exists>stem. s = stem @ suf)"
proof
  assume "endsWith s suf"
  then have "s = take (length s - length suf) s @ suf"
    by (metis append_take_drop_id endsWith_def)
  then show "\<exists>stem. s = stem @ suf" ..
next
  assume "\<exists>stem. s = stem @ suf"
  then show "endsWith s suf"
    by (auto simp: endsWith_def)
qed

lemma locateDynamicLibrary_Inr:
  assumes "locateDynamicLibrary w options = Inr p"
  shows "\<exists>entries file.
      existsSync w (path_join w [cwd w, ''target'', triple (target options),
                      configurationName (configuration options)])
    \<and> readdirSync w (path_join w [cwd w, ''target'', triple (target options),
                      configurationName (configuration options)]) = Some entries
    \<and> filter isDynamicLibrary entries = [file]
    \<and> p = path_join w
            [path_join w [cwd w, ''target'', triple (target options),
                configurationName (configuration options)], file]
    \<and> existsSync w p"
  using assms
  unfolding locateDynamicLibrary_def Let_def andThen_Inr_iff
  by (auto simp: joinPathAndAssertExistence_Inr_iff length_Suc_conv
        split: option.splits if_splits)

lemma locateDynamicLibrary_ambiguous:
  assumes "joinPathAndAssertExistence w
        [cwd w, ''target'', triple (target options),
         configurationName (configuration options)] = Inr out"
    and "readdirSync w out = Some entries"
    and "length (filter isDynamicLibrary entries) \<noteq> 1"
  shows "locateDynamicLibrary w options =
     Inl (AssertionError (''Expected a single shared object file in '' @ out))"
  using assms by (simp add: locateDynamicLibrary_def andThen_def Let_def)

lemma locateDynamicLibrary_single:
  assumes "joinPathAndAssertExistence w
        [cwd w, ''target'', triple (target options),
         configurationName (configuration options)] = Inr out"
    and "readdirSync w out = Some entries"
    and "filter isDynamicLibrary entries = [file]"
  shows "locateDynamicLibrary w options = joinPathAndAssertExistence w [out, file]"
  using assms by (simp add: locateDynamicLibrary_def andThen_def Let_def)

text \<open>
  Claim C3. When the external build has succeeded, \<^verbatim>\<open>build\<close> returns a path only if
  the target's output directory lists exactly one entry whose name ends in \<open>.so\<close> or
  \<open>.dylib\<close>, and the path is that entry's, inside the output directory; when the
  directory lists none or more than one, \<^verbatim>\<open>build\<close> fails with the assertion error
  that a single shared object file was expected.
\<close>

theorem build_single_dynamic_library:
  assumes "getTargetEnvironmentVariables w options = Inr e"
    and "spawn ''cargo'' (buildArguments isThirdTierTarget options)
           (spawnEnvironment w e) w = Inr w'"
  shows "(isDynamicLibrary name \<longleftrightarrow>
            (\<exists>stem. name = stem @ ''.so'' \<or> name = stem @ ''.dylib''))
    \<and> (build isThirdTierTarget spawn w options = Inr p \<longrightarrow>
         (\<exists>out entries file.
            joinPathAndAssertExistence w'
              [cwd w', ''target'', triple (target options),
               configurationName (configuration options)] = Inr out
          \<and> readdirSync w' out = Some entries
          \<and> filter isDynamicLibrary entries = [file]
          \<and> p = path_join w' [out, file]))
    \<and> (\<forall>out entries.
          joinPathAndAssertExistence w'
              [cwd w', ''target'', triple (target options),
               configurationName (configuration options)] = Inr out
          \<and> readdirSync w' out = Some entries \<longrightarrow>
          (length (filter isDynamicLibrary entries) \<noteq> 1 \<longrightarrow>
             build isThirdTierTarget spawn w options =
               Inl (AssertionError (''Expected a single shared object file in '' @ out)))
          \<and> (\<forall>file. filter isDynamicLibrary entries = [file] \<longrightarrow>
                build isThirdTierTarget spawn w options =
                  joinPathAndAssertExistence w' [out, file]))"
proof -
  have b: "build isThirdTierTarget spawn w options = locateDynamicLibrary w' options"
    using assms by (simp add: build_def Let_def andThen_def)
  have 1: "isDynamicLibrary name \<longleftrightarrow>
            (\<exists>stem. name = stem @ ''.so'' \<or> name = stem @ ''.dylib'')"
    unfolding isDynamicLibrary_def endsWith_iff by blast
  have 2: "build isThirdTierTarget spawn w options = Inr p \<longrightarrow>
         (\<exists>out entries file.
            joinPathAndAssertExistence w'
              [cwd w', ''target'', triple (target options),
               configurationName (configuration options)] = Inr out
          \<and> readdirSync w' out = Some entries
          \<and> filter isDynamicLibrary entries = [file]
          \<and> p = path_join w' [out, file])"
    unfolding b joinPathAndAssertExistence_Inr_iff
    using locateDynamicLibrary_Inr [of w' options p] by blast
  show ?thesis
    using 1 2 locateDynamicLibrary_ambiguous [of w' options]
      locateDynamicLibrary_single [of w' options]
    unfolding b by blast
qed


theorem build_single_dynamic_library_witness:
  "getTargetEnvironmentVariables linuxHost arm64AndroidOptions = Inr arm64AndroidEnvironment
   \<and> build visionTier (cargoLeaves [''libfoo.so'', ''libfoo.d'', ''deps''])
         linuxHost arm64AndroidOptions
       = Inr ''/app/target/aarch64-linux-android/debug/libfoo.so''
   \<and> build visionTier (cargoLeaves [''libfoo.so'', ''libfoo.dylib''])
         linuxHost arm64AndroidOptions
       = Inl (AssertionError
           ''Expected a single shared object file in /app/target/aarch64-linux-android/debug'')
   \<and> build visionTier (cargoLeaves [''libfoo.d'', ''deps''])
         linuxHost arm64AndroidOptions
       = Inl (AssertionError
           ''Expected a single shared object file in /app/target/aarch64-linux-android/debug'')"
proof -
  define out where "out = ''/app/target/aarch64-linux-android/debug''"
  define leaves where "leaves entries =
     linuxHost\<lparr> existsSync := (\<lambda>p. existsSync linuxHost p
                 \<or> p = ''/app/target/aarch64-linux-android/debug''
                 \<or> p \<in> set (map (\<lambda>entry. ''/app/target/aarch64-linux-android/debug/'' @ entry)
                              entries)),
             readdirSync := (readdirSync linuxHost)
                 (''/app/target/aarch64-linux-android/debug'' \<mapsto> entries) \<rparr>"
    for entries
  have spawned: "cargoLeaves entries ''cargo'' (buildArguments visionTier arm64AndroidOptions)
      (spawnEnvironment linuxHost arm64AndroidEnvironment) linuxHost = Inr (leaves entries)"
    for entries
    by (simp add: cargoLeaves_def leaves_def)
  have dir: "joinPathAndAssertExistence (leaves entries)
       [cwd (leaves entries), ''target'', triple (target arm64AndroidOptions),
        configurationName (configuration arm64AndroidOptions)] = Inr out"
    for entries
    unfolding leaves_def out_def by code_simp
  have listing: "readdirSync (leaves entries) out = Some entries" for entries
    by (simp add: leaves_def out_def)
  have lib: "joinPathAndAssertExistence (leaves [''libfoo.so'', ''libfoo.d'', ''deps''])
       [out, ''libfoo.so''] = Inr ''/app/target/aarch64-linux-android/debug/libfoo.so''"
    unfolding leaves_def out_def by code_simp
  have one: "filter isDynamicLibrary [''libfoo.so'', ''libfoo.d'', ''deps''] = [''libfoo.so'']"
    by code_simp
  have two: "length (filter isDynamicLibrary [''libfoo.so'', ''libfoo.dylib'']) \<noteq> 1"
    by code_simp
  have none: "length (filter isDynamicLibrary [''libfoo.d'', ''deps'']) \<noteq> 1"
    by code_simp
  have r1: "build visionTier (cargoLeaves [''libfoo.so'', ''libfoo.d'', ''deps''])
         linuxHost arm64AndroidOptions
       = Inr ''/app/target/aarch64-linux-android/debug/libfoo.so''"
    using build_single_dynamic_library
      [where spawn = "cargoLeaves [''libfoo.so'', ''libfoo.d'', ''deps'']" and isThirdTierTarget = visionTier
         and w' = "leaves [''libfoo.so'', ''libfoo.d'', ''deps'']",
       OF linuxHost_arm64_android spawned] dir listing one lib
    by metis
  have r2: "build visionTier (cargoLeaves [''libfoo.so'', ''libfoo.dylib''])
         linuxHost arm64AndroidOptions
       = Inl (AssertionError (''Expected a single shared object file in '' @ out))"
    using build_single_dynamic_library
      [where spawn = "cargoLeaves [''libfoo.so'', ''libfoo.dylib'']" and isThirdTierTarget = visionTier
         and w' = "leaves [''libfoo.so'', ''libfoo.dylib'']",
       OF linuxHost_arm64_android spawned] dir listing two
    by metis
  have r3: "build visionTier (cargoLeaves [''libfoo.d'', ''deps''])
         linuxHost arm64AndroidOptions
       = Inl (AssertionError (''Expected a single shared object file in '' @ out))"
    using build_single_dynamic_library
      [where spawn = "cargoLeaves [''libfoo.d'', ''deps'']" and isThirdTierTarget = visionTier
         and w' = "leaves [''libfoo.d'', ''deps'']",
       OF linuxHost_arm64_android spawned] dir listing none
    by metis
  show ?thesis
    using linuxHost_arm64_android r1 r2 r3 by (simp add: out_def)
qed


subsection \<open>The environment of an Apple target\<close>

lemma appleEnvironment_Inr:
  assumes "appleEnvironment w t = Inr e"
  shows "\<exists>dir. getWeakNodeApiFrameworkPath w t = Inr dir
    \<and> e = [(''CARGO_ENCODED_RUSTFLAGS'',
             joinWith [unitSeparator]
               [''-L'', ''framework='' @ dir, ''-l'', ''framework=weak-node-api''])]"
  using assms unfolding appleEnvironment_def andThen_Inr_iff
  by (auto split: if_splits)

lemma linuxHost_arm64_mac:
  "getTargetEnvironmentVariables linuxHost arm64MacOptions =
     Inr [(''CARGO_ENCODED_RUSTFLAGS'',
           ''-L'' @ [CHR 0x1F] @ ''framework=/wna/build/Release/weak-node-api.xcframework/macos-arm64_x86_64'' @ [CHR 0x1F]
             @ ''-l'' @ [CHR 0x1F] @ ''framework=weak-node-api'')]"
  by code_simp

text \<open>
  Claim C10. For an Apple target the mapping that \<^verbatim>\<open>getTargetEnvironmentVariables\<close>
  returns has the one key \<^verbatim>\<open>CARGO_ENCODED_RUSTFLAGS\<close>, so the environment that
  \<^verbatim>\<open>build\<close> gives the build command has every other variable as the ambient
  environment has it.
\<close>

theorem apple_environment_single_variable:
  assumes "target options = Apple t"
    and "getTargetEnvironmentVariables w options = Inr e"
  shows "map fst e = [''CARGO_ENCODED_RUSTFLAGS'']
    \<and> (\<forall>name. name \<noteq> ''CARGO_ENCODED_RUSTFLAGS'' \<longrightarrow>
          spawnEnvironment w e name = env w name)
    \<and> build isThirdTierTarget spawn w options =
        andThen (spawn ''cargo'' (buildArguments isThirdTierTarget options)
                   (spawnEnvironment w e) w)
          (\<lambda>w'. locateDynamicLibrary w' options)"
proof -
  from assms have "appleEnvironment w t = Inr e"
    by (simp add: getTargetEnvironmentVariables_def)
  then obtain v where e: "e = [(''CARGO_ENCODED_RUSTFLAGS'', v)]"
    using appleEnvironment_Inr by blast
  have "build isThirdTierTarget spawn w options =
        andThen (spawn ''cargo'' (buildArguments isThirdTierTarget options)
                   (spawnEnvironment w e) w)
          (\<lambda>w'. locateDynamicLibrary w' options)"
    using assms(2) by (simp add: build_def Let_def andThen_def)
  then show ?thesis
    by (simp add: e spawnEnvironment_def map_add_def)
qed

theorem apple_environment_single_variable_witness:
  "target arm64MacOptions = Apple Aarch64AppleDarwin
   \<and> getTargetEnvironmentVariables linuxHost arm64MacOptions =
       Inr [(''CARGO_ENCODED_RUSTFLAGS'',
             ''-L'' @ [CHR 0x1F] @ ''framework=/wna/build/Release/weak-node-api.xcframework/macos-arm64_x86_64'' @ [CHR 0x1F]
               @ ''-l'' @ [CHR 0x1F] @ ''framework=weak-node-api'')]
   \<and> ''PATH'' \<noteq> ''CARGO_ENCODED_RUSTFLAGS''
   \<and> spawnEnvironment linuxHost
        [(''CARGO_ENCODED_RUSTFLAGS'',
          ''-L'' @ [CHR 0x1F] @ ''framework=/wna/build/Release/weak-node-api.xcframework/macos-arm64_x86_64'' @ [CHR 0x1F]
            @ ''-l'' @ [CHR 0x1F] @ ''framework=weak-node-api'')] ''PATH''
       = Some ''/usr/bin''"
proof -
  have t: "target arm64MacOptions = Apple Aarch64AppleDarwin"
    by (simp add: arm64MacOptions_def)
  have p: "env linuxHost ''PATH'' = Some ''/usr/bin''"
    by (simp add: linuxHost_def)
  from apple_environment_single_variable [OF t linuxHost_arm64_mac] p
  show ?thesis
    using t linuxHost_arm64_mac by simp
qed


subsection \<open>The encoding of the link flags\<close>

lemma splitOn_without_separator: "sep \<notin> set s \<Longrightarrow> splitOn sep s = [s]"
  by (induction s) auto

lemma splitOn_at_separator:
  "sep \<notin> set a \<Longrightarrow> splitOn sep (a @ sep # b) = a # splitOn sep b"
  by (induction a) auto

lemma length_splitOn:
  "length (splitOn sep s) = Suc (length (filter (\<lambda>c. c = sep) s))"
  using splitOn_not_Nil [of sep]
  by (induction s) (auto split: list.splits)

lemma split_join_four:
  assumes "sep \<notin> set a" and "sep \<notin> set c" and "sep \<notin> set d"
  shows "splitOn sep (joinWith [sep] [a, b, c, d]) = [a, b, c, d] \<longleftrightarrow> sep \<notin> set b"
proof
  assume "sep \<notin> set b"
  with assms show "splitOn sep (joinWith [sep] [a, b, c, d]) = [a, b, c, d]"
    by (simp add: splitOn_at_separator splitOn_without_separator)
next
  assume "splitOn sep (joinWith [sep] [a, b, c, d]) = [a, b, c, d]"
  then have "length (splitOn sep (joinWith [sep] [a, b, c, d])) = 4"
    by simp
  then have "length (filter (\<lambda>c. c = sep) b) = 0"
    using assms by (simp add: length_splitOn filter_empty_conv [THEN iffD2])
  then show "sep \<notin> set b"
    by (auto simp: filter_empty_conv)
qed

lemma androidEnvironment_flags:
  assumes "androidEnvironment w t ndk api = Inr e"
  shows "\<exists>dir. getWeakNodeApiAndroidLibraryPath w t = Inr dir
    \<and> map_of e ''CARGO_ENCODED_RUSTFLAGS'' =
        Some (joinWith [unitSeparator] [''-L'', dir, ''-l'', ''weak-node-api''])"
  using assms
  unfolding androidEnvironment_def Let_def andThen_Inr_iff
  by auto

lemma link_flag_not_an_argument:
  "''-L'' \<notin> set (buildArguments isThirdTierTarget options)
   \<and> ''-l'' \<notin> set (buildArguments isThirdTierTarget options)"
proof -
  have "triple t \<noteq> ''-L'' \<and> triple t \<noteq> ''-l''" for t
  proof (cases t)
    case (Android a)
    then show ?thesis by (cases a) simp_all
  next
    case (Apple a)
    then show ?thesis by (cases a) simp_all
  qed
  from this [of "target options"] show ?thesis
    by (auto simp: buildArguments_def Let_def)
qed

text \<open>
  Claim C6, amended. For every target the link flags are the value of the one variable
  \<^verbatim>\<open>CARGO_ENCODED_RUSTFLAGS\<close>: the four fields \<open>-L\<close>, the directory of the prebuilt
  library, \<open>-l\<close> and the library name (for Apple with the prefix \<open>framework=\<close>),
  joined by U+001F. The directory is not checked for that character: splitting the
  value at U+001F gives back the four fields exactly when the directory does not
  contain it. Neither \<open>-L\<close> nor \<open>-l\<close> is among the arguments of the build command.
\<close>

theorem encoded_rustflags:
  assumes "getTargetEnvironmentVariables w options = Inr e"
  shows "\<exists>dir. libraryDirectory w (target options) = Inr dir
    \<and> map_of e ''CARGO_ENCODED_RUSTFLAGS'' =
        Some (joinWith [unitSeparator] (linkFlags (target options) dir))
    \<and> (splitOn unitSeparator (joinWith [unitSeparator] (linkFlags (target options) dir))
          = linkFlags (target options) dir
        \<longleftrightarrow> unitSeparator \<notin> set dir)
    \<and> ''-L'' \<notin> set (buildArguments isThirdTierTarget options)
    \<and> ''-l'' \<notin> set (buildArguments isThirdTierTarget options)"
proof (cases "target options")
  case (Android a)
  with assms have "androidEnvironment w a (ndkVersion options) (androidApiLevel options) = Inr e"
    by (simp add: getTargetEnvironmentVariables_def)
  then obtain dir where dir: "getWeakNodeApiAndroidLibraryPath w a = Inr dir"
    and flags: "map_of e ''CARGO_ENCODED_RUSTFLAGS'' =
        Some (joinWith [unitSeparator] [''-L'', dir, ''-l'', ''weak-node-api''])"
    using androidEnvironment_flags by blast
  have "splitOn unitSeparator (joinWith [unitSeparator] [''-L'', dir, ''-l'', ''weak-node-api''])
          = [''-L'', dir, ''-l'', ''weak-node-api'']
        \<longleftrightarrow> unitSeparator \<notin> set dir"
    by (rule split_join_four) (simp_all add: unitSeparator_def)
  with dir flags link_flag_not_an_argument [of isThirdTierTarget options] Android
  show ?thesis
    by (simp add: libraryDirectory_def linkFlags_def)
next
  case (Apple a)
  with assms have "appleEnvironment w a = Inr e"
    by (simp add: getTargetEnvironmentVariables_def)
  then obtain dir where dir: "getWeakNodeApiFrameworkPath w a = Inr dir"
    and e: "e = [(''CARGO_ENCODED_RUSTFLAGS'',
             joinWith [unitSeparator]
               [''-L'', ''framework='' @ dir, ''-l'', ''framework=weak-node-api''])]"
    using appleEnvironment_Inr by blast
  have "splitOn unitSeparator
          (joinWith [unitSeparator]
             [''-L'', ''framework='' @ dir, ''-l'', ''framework=weak-node-api''])
          = [''-L'', ''framework='' @ dir, ''-l'', ''framework=weak-node-api'']
        \<longleftrightarrow> unitSeparator \<notin> set (''framework='' @ dir)"
    by (rule split_join_four) (simp_all add: unitSeparator_def)
  moreover have "unitSeparator \<notin> set (''framework='' @ dir) \<longleftrightarrow> unitSeparator \<notin> set dir"
    by (simp add: unitSeparator_def)
  ultimately show ?thesis
    using dir e link_flag_not_an_argument [of isThirdTierTarget options] Apple
    by (simp add: libraryDirectory_def linkFlags_def)
qed

theorem encoded_rustflags_witness:
  "getTargetEnvironmentVariables linuxHost arm64MacOptions =
     Inr [(''CARGO_ENCODED_RUSTFLAGS'',
           ''-L'' @ [CHR 0x1F] @ ''framework=/wna/build/Release/weak-node-api.xcframework/macos-arm64_x86_64'' @ [CHR 0x1F]
             @ ''-l'' @ [CHR 0x1F] @ ''framework=weak-node-api'')]
   \<and> splitOn unitSeparator
        (''-L'' @ [CHR 0x1F] @ ''framework=/wna/build/Release/weak-node-api.xcframework/macos-arm64_x86_64'' @ [CHR 0x1F]
           @ ''-l'' @ [CHR 0x1F] @ ''framework=weak-node-api'')
       = [''-L'', ''framework=/wna/build/Release/weak-node-api.xcframework/macos-arm64_x86_64'', ''-l'',
          ''framework=weak-node-api'']"
proof -
  have dir: "libraryDirectory linuxHost (target arm64MacOptions)
      = Inr ''/wna/build/Release/weak-node-api.xcframework/macos-arm64_x86_64''"
    by code_simp
  have t: "target arm64MacOptions = Apple Aarch64AppleDarwin"
    by (simp add: arm64MacOptions_def)
  from encoded_rustflags [OF linuxHost_arm64_mac, of visionTier]
  have "splitOn unitSeparator
          (joinWith [unitSeparator]
             (linkFlags (target arm64MacOptions) ''/wna/build/Release/weak-node-api.xcframework/macos-arm64_x86_64''))
        = linkFlags (target arm64MacOptions) ''/wna/build/Release/weak-node-api.xcframework/macos-arm64_x86_64''"
    unfolding dir by (auto simp: unitSeparator_def)
  then show ?thesis
    using linuxHost_arm64_mac by (simp add: t linkFlags_def unitSeparator_def)
qed

text \<open>
  The claim as first written calls U+001F a character that cannot appear in a path. On
  this host the directory of the library holds it, the function returns, and the value
  splits into five fields.
\<close>

theorem encoded_rustflags_counterexample:
  "libraryDirectory separatorHost (target arm64MacOptions)
     = Inr (''/w'' @ [CHR 0x1F]
         @ ''a/build/Release/weak-node-api.xcframework/macos-arm64'')
   \<and> CHR 0x1F \<in> set (''/w'' @ [CHR 0x1F]
         @ ''a/build/Release/weak-node-api.xcframework/macos-arm64'')
   \<and> getTargetEnvironmentVariables separatorHost arm64MacOptions =
       Inr [(''CARGO_ENCODED_RUSTFLAGS'',
             ''-L'' @ [CHR 0x1F] @ ''framework=/w'' @ [CHR 0x1F]
               @ ''a/build/Release/weak-node-api.xcframework/macos-arm64''
               @ [CHR 0x1F] @ ''-l'' @ [CHR 0x1F] @ ''framework=weak-node-api'')]
   \<and> splitOn (CHR 0x1F)
        (''-L'' @ [CHR 0x1F] @ ''framework=/w'' @ [CHR 0x1F]
               @ ''a/build/Release/weak-node-api.xcframework/macos-arm64''
           @ [CHR 0x1F] @ ''-l'' @ [CHR 0x1F] @ ''framework=weak-node-api'')
       = [''-L'', ''framework=/w'',
          ''a/build/Release/weak-node-api.xcframework/macos-arm64'', ''-l'',
          ''framework=weak-node-api'']"
proof -
  have 1: "libraryDirectory separatorHost (target arm64MacOptions)
     = Inr (''/w'' @ [CHR 0x1F]
         @ ''a/build/Release/weak-node-api.xcframework/macos-arm64'')"
    by code_simp
  have 2: "getTargetEnvironmentVariables separatorHost arm64MacOptions =
       Inr [(''CARGO_ENCODED_RUSTFLAGS'',
             ''-L'' @ [CHR 0x1F] @ ''framework=/w'' @ [CHR 0x1F]
               @ ''a/build/Release/weak-node-api.xcframework/macos-arm64''
               @ [CHR 0x1F] @ ''-l'' @ [CHR 0x1F] @ ''framework=weak-node-api'')]"
    by code_simp
  have 3: "splitOn (CHR 0x1F)
        (''-L'' @ [CHR 0x1F] @ ''framework=/w'' @ [CHR 0x1F]
               @ ''a/build/Release/weak-node-api.xcframework/macos-arm64''
           @ [CHR 0x1F] @ ''-l'' @ [CHR 0x1F] @ ''framework=weak-node-api'')
       = [''-L'', ''framework=/w'',
          ''a/build/Release/weak-node-api.xcframework/macos-arm64'', ''-l'',
          ''framework=weak-node-api'']"
    by code_simp
  show ?thesis
    using 1 2 3 by simp
qed


subsection \<open>What the environment depends on\<close>

lemma androidEnvironment_cong:
  assumes "env w1 ''ANDROID_HOME'' = env w2 ''ANDROID_HOME''"
    and "env w1 ''PATH'' = env w2 ''PATH''"
    and "platform w1 = platform w2"
    and "existsSync w1 = existsSync w2"
    and "readdirSync w1 = readdirSync w2"
    and "path_join w1 = path_join w2"
    and "androidPrebuildPath w1 = androidPrebuildPath w2"
  shows "androidEnvironment w1 t ndk api = androidEnvironment w2 t ndk api"
  unfolding androidEnvironment_def getWeakNodeApiAndroidLibraryPath_def
    getLLVMToolchainBinPath_def joinPathAndAssertExistence_def assms
  by (rule refl)

lemma appleEnvironment_cong:
  assumes "existsSync w1 = existsSync w2"
    and "path_join w1 = path_join w2"
    and "applePrebuildPath w1 = applePrebuildPath w2"
  shows "appleEnvironment w1 t = appleEnvironment w2 t"
  unfolding appleEnvironment_def getWeakNodeApiFrameworkPath_def
    joinPathAndAssertExistence_def assms
  by (rule refl)

text \<open>
  Claim C7, amended. The result of \<^verbatim>\<open>getTargetEnvironmentVariables\<close> is determined by
  the target, \<^verbatim>\<open>ndkVersion\<close> and \<^verbatim>\<open>androidApiLevel\<close> together with what the function
  reads from the process: the variables \<^verbatim>\<open>ANDROID_HOME\<close> and \<^verbatim>\<open>PATH\<close>,
  \<^verbatim>\<open>process.platform\<close>, the file system, \<^verbatim>\<open>path.join\<close> and the two prebuild paths.
  Two calls that agree on these return the same result; the configuration, the working
  directory and every other environment variable have no influence.
\<close>

theorem environment_determined_by_inputs_and_process:
  assumes "target o1 = target o2"
    and "ndkVersion o1 = ndkVersion o2"
    and "androidApiLevel o1 = androidApiLevel o2"
    and "env w1 ''ANDROID_HOME'' = env w2 ''ANDROID_HOME''"
    and "env w1 ''PATH'' = env w2 ''PATH''"
    and "platform w1 = platform w2"
    and "existsSync w1 = existsSync w2"
    and "readdirSync w1 = readdirSync w2"
    and "path_join w1 = path_join w2"
    and "applePrebuildPath w1 = applePrebuildPath w2"
    and "androidPrebuildPath w1 = androidPrebuildPath w2"
  shows "getTargetEnvironmentVariables w1 o1 = getTargetEnvironmentVariables w2 o2"
proof (cases "target o2")
  case (Android a)
  then show ?thesis
    using assms androidEnvironment_cong [of w1 w2 a "ndkVersion o2" "androidApiLevel o2"]
    by (simp add: getTargetEnvironmentVariables_def)
next
  case (Apple a)
  then show ?thesis
    using assms appleEnvironment_cong [of w1 w2 a]
    by (simp add: getTargetEnvironmentVariables_def)
qed

theorem environment_determined_by_inputs_and_process_witness:
  "cwd linuxHost \<noteq> cwd otherDirectoryHost
   \<and> env linuxHost ''HOME'' \<noteq> env otherDirectoryHost ''HOME''
   \<and> configuration arm64AndroidOptions
       \<noteq> configuration (arm64AndroidOptions\<lparr>configuration := Release\<rparr>)
   \<and> getTargetEnvironmentVariables otherDirectoryHost
        (arm64AndroidOptions\<lparr>configuration := Release\<rparr>)
       = Inr arm64AndroidEnvironment"
proof -
  have apple: "applePrebuildPath linuxHost = applePrebuildPath otherDirectoryHost"
    by code_simp
  have android: "androidPrebuildPath linuxHost = androidPrebuildPath otherDirectoryHost"
    by code_simp
  have "getTargetEnvironmentVariables linuxHost arm64AndroidOptions
      = getTargetEnvironmentVariables otherDirectoryHost
          (arm64AndroidOptions\<lparr>configuration := Release\<rparr>)"
    by (rule environment_determined_by_inputs_and_process)
       (simp_all add: otherDirectoryHost_def apple [unfolded otherDirectoryHost_def]
          android [unfolded otherDirectoryHost_def])
  then show ?thesis
    using linuxHost_arm64_android
    by (simp add: otherDirectoryHost_def linuxHost_def arm64AndroidOptions_def)
qed

text \<open>
  The claim as first written makes the result a function of the target and the build
  configuration alone. Two hosts that differ in \<^verbatim>\<open>PATH\<close> give different results for
  the same options.
\<close>

theorem environment_hidden_state_counterexample:
  "getTargetEnvironmentVariables linuxHost arm64AndroidOptions
     \<noteq> getTargetEnvironmentVariables otherPathHost arm64AndroidOptions"
proof -
  have "map_sum id (\<lambda>e. map_of e ''PATH'')
          (getTargetEnvironmentVariables otherPathHost arm64AndroidOptions)
        = Inr (Some ''/sdk/ndk/27.1/toolchains/llvm/prebuilt/linux-x86_64/bin:/opt/bin'')"
    by code_simp
  moreover have "map_sum id (\<lambda>e. map_of e ''PATH'')
          (getTargetEnvironmentVariables linuxHost arm64AndroidOptions)
        = Inr (Some ''/sdk/ndk/27.1/toolchains/llvm/prebuilt/linux-x86_64/bin:/usr/bin'')"
    by (simp add: linuxHost_arm64_android arm64AndroidEnvironment_def)
  ultimately show ?thesis
    by auto
qed


subsection \<open>The \<^verbatim>\<open>link\<close> command\<close>

lemma reportLinked_events:
  "reportLinked ms st = st\<lparr>events := events st @ linkedLines ms\<rparr>"
  by (induction ms st rule: reportLinked.induct) (simp_all add: emit_def)

lemma reportFailures_events:
  "\<forall>m \<in> set ms. holdsSpawnFailure m \<Longrightarrow>
     reportFailures ms st =
       (Inr (), \<lparr> exitCode = (if \<exists>m \<in> set ms. isFailedModule m then Some 1 else exitCode st),
                  events = events st @ failureLines ms \<rparr>)"
proof (induction ms st rule: reportFailures.induct)
  case (2 originalPath failure rest st)
  then show ?case
    by (cases failure) (simp_all add: emit_def)
qed simp_all

lemma linkedLines_filter: "linkedLines (filter isLinkedModule ms) = linkedLines ms"
  by (induction ms rule: linkedLines.induct) simp_all

lemma failureLines_filter: "failureLines (filter isFailedModule ms) = failureLines ms"
  by (induction ms rule: failureLines.induct) simp_all

lemma linkPlatform_report:
  assumes "linkModules deps p (path_resolve w [pathArg]) (\<not> force opts)
             (packageName opts, pathSuffix opts) = Inr ms"
    and "\<forall>m \<in> set ms. holdsSpawnFailure m"
  shows "linkPlatform deps w pathArg opts p st =
     ((if prune opts then pruneLinkedModules deps p ms else Inr ()),
      \<lparr> exitCode = (if \<exists>m \<in> set ms. isFailedModule m then Some 1 else exitCode st),
        events = events st @ platformReport (prune opts) p ms \<rparr>)"
proof -
  have typed: "\<forall>m \<in> set (filter isFailedModule ms). holdsSpawnFailure m"
    using assms(2) by simp
  have failed: "(\<exists>m \<in> set (filter isFailedModule ms). isFailedModule m)
      \<longleftrightarrow> (\<exists>m \<in> set ms. isFailedModule m)"
    by auto
  show ?thesis
    unfolding linkPlatform_def Let_def assms(1)
    by (auto simp: reportFailures_events [OF typed] reportLinked_events linkedLines_filter
          failureLines_filter platformReport_def emit_def failed)
qed

lemma linkPlatforms_report:
  assumes "collaboratorsReturn deps w pathArg opts ps results"
  shows "linkPlatforms deps w pathArg opts ps st =
     (Inr (),
      \<lparr> exitCode = (if \<exists>p \<in> set ps. \<exists>m \<in> set (results p). isFailedModule m
                    then Some 1 else exitCode st),
        events = events st
          @ concat (map (\<lambda>p. platformReport (prune opts) p (results p)) ps) \<rparr>)"
  using assms
proof (induction ps arbitrary: st)
  case Nil
  then show ?case by simp
next
  case (Cons p ps)
  from Cons.prems have here:
    "linkModules deps p (path_resolve w [pathArg]) (\<not> force opts)
       (packageName opts, pathSuffix opts) = Inr (results p)"
    "\<forall>m \<in> set (results p). holdsSpawnFailure m"
    "prune opts \<longrightarrow> pruneLinkedModules deps p (results p) = Inr ()"
    and rest: "collaboratorsReturn deps w pathArg opts ps results"
    by (simp_all add: collaboratorsReturn_def)
  show ?case
    using here(3)
    by (simp add: linkPlatform_report [OF here(1,2)] Cons.IH [OF rest])
qed

lemma restoreSlices_state:
  "exitCode (snd (restoreSlices deps w slices st)) = exitCode st
   \<and> (\<exists>calls. events (snd (restoreSlices deps w slices st))
                = events st @ map RestoreCalled calls)"
proof (induction slices arbitrary: st)
  case Nil
  show ?case by (simp add: exI [of _ "[]"])
next
  case (Cons slicePath slices)
  let ?f = "path_join w [slicePath, ''weak-node-api.framework'']"
  show ?case
  proof (cases "existsSync w ?f")
    case True
    from Cons [of "emit (RestoreCalled ?f) st"] obtain calls where
      c: "exitCode (snd (restoreSlices deps w slices (emit (RestoreCalled ?f) st)))
            = exitCode st"
         "events (snd (restoreSlices deps w slices (emit (RestoreCalled ?f) st)))
            = events st @ map RestoreCalled (?f # calls)"
      by (auto simp: emit_def)
    have s: "snd (restoreSlices deps w (slicePath # slices) st)
        = snd (restoreSlices deps w slices (emit (RestoreCalled ?f) st))"
      using True by (cases "restoreFrameworkLinks deps ?f") (simp_all add: Let_def)
    show ?thesis
      unfolding s using c by blast
  next
    case False
    then show ?thesis
      using Cons [of st] by (simp add: Let_def)
  qed
qed


lemma moduleLine_reported:
  "m \<in> set ms \<Longrightarrow> holdsSpawnFailure m \<Longrightarrow>
     moduleLine m \<in> set (linkedLines ms) \<union> set (failureLines ms)"
proof (induction ms)
  case Nil
  then show ?case by simp
next
  case (Cons a ms)
  show ?case
  proof (cases a)
    case (LinkedModule originalPath outputPath skipped)
    with Cons show ?thesis by auto
  next
    case (FailedModule originalPath failure)
    with Cons show ?thesis by (cases failure) auto
  qed
qed

lemma selectedPlatforms_empty:
  "selectedPlatforms opts = [] \<longleftrightarrow> \<not> android opts \<and> \<not> apple opts"
  by (simp add: selectedPlatforms_def)

lemma linkAction_no_platform:
  assumes "selectedPlatforms opts = []"
  shows "linkAction deps w pathArg opts st =
     (Inr (), \<lparr> exitCode = Some 1,
                events = events st @ [AutoLinking pathArg, NoPlatformSpecified] \<rparr>)"
  using assms by (simp add: linkAction_def Let_def emit_def)

lemma linkAction_report:
  assumes "selectedPlatforms opts \<noteq> []"
    and "collaboratorsReturn deps w pathArg opts (selectedPlatforms opts) results"
  shows "exitCode (snd (linkAction deps w pathArg opts st)) =
       (if \<exists>p \<in> set (selectedPlatforms opts). \<exists>m \<in> set (results p). isFailedModule m
        then Some 1 else exitCode st)
    \<and> (\<exists>calls. events (snd (linkAction deps w pathArg opts st)) =
          events st @ [AutoLinking pathArg]
          @ concat (map (\<lambda>p. platformReport (prune opts) p (results p))
                      (selectedPlatforms opts))
          @ map RestoreCalled calls)"
proof (cases "apple opts")
  case False
  then have "linkAction deps w pathArg opts st =
      linkPlatforms deps w pathArg opts (selectedPlatforms opts) (emit (AutoLinking pathArg) st)"
    using assms(1)
    by (simp add: linkAction_def Let_def linkPlatforms_report [OF assms(2)])
  then show ?thesis
    by (simp add: linkPlatforms_report [OF assms(2)] emit_def exI [of _ "[]"])
next
  case True
  let ?slices = "[path_join w [applePrebuildPath w, ''macos-x86_64''],
                  path_join w [applePrebuildPath w, ''macos-arm64''],
                  path_join w [applePrebuildPath w, ''macos-arm64_x86_64'']]"
  let ?st = "snd (linkPlatforms deps w pathArg opts (selectedPlatforms opts)
                    (emit (AutoLinking pathArg) st))"
  have linked: "exitCode ?st =
      (if \<exists>p \<in> set (selectedPlatforms opts). \<exists>m \<in> set (results p). isFailedModule m
       then Some 1 else exitCode st)"
    "events ?st = events st @ [AutoLinking pathArg]
       @ concat (map (\<lambda>p. platformReport (prune opts) p (results p))
                   (selectedPlatforms opts))"
    by (simp_all add: linkPlatforms_report [OF assms(2)] emit_def)
  have action: "linkAction deps w pathArg opts st = restoreSlices deps w ?slices ?st"
    using assms(1) True
    by (simp add: linkAction_def Let_def linkPlatforms_report [OF assms(2)]
          del: restoreSlices.simps)
  obtain calls where restored:
    "exitCode (snd (restoreSlices deps w ?slices ?st)) = exitCode ?st"
    "events (snd (restoreSlices deps w ?slices ?st)) = events ?st @ map RestoreCalled calls"
    using restoreSlices_state [of deps w ?slices ?st] by blast
  have "events (snd (linkAction deps w pathArg opts st)) =
          events st @ [AutoLinking pathArg]
          @ concat (map (\<lambda>p. platformReport (prune opts) p (results p))
                      (selectedPlatforms opts))
          @ map RestoreCalled calls"
    unfolding action restored(2) linked(2) by simp
  moreover have "exitCode (snd (linkAction deps w pathArg opts st)) =
       (if \<exists>p \<in> set (selectedPlatforms opts). \<exists>m \<in> set (results p). isFailedModule m
        then Some 1 else exitCode st)"
    unfolding action restored(1) linked(1) by (rule refl)
  ultimately show ?thesis
    by blast
qed

text \<open>
  Claim C8. Without a platform flag the action sets the exit code to 1 and does nothing
  else. With platforms selected, and collaborators that return, the exit code is 1 as
  soon as one module of one platform has failed; and the report has, for every
  platform in turn, a line for each linked module and the lines of each failed one:
  a failure stops neither the report of the other modules nor the next platform.
\<close>

theorem link_exit_code_and_report:
  "(selectedPlatforms opts = [] \<longleftrightarrow> \<not> android opts \<and> \<not> apple opts)
   \<and> (selectedPlatforms opts = [] \<longrightarrow>
        linkAction deps w pathArg opts st =
          (Inr (), \<lparr> exitCode = Some 1,
                     events = events st @ [AutoLinking pathArg, NoPlatformSpecified] \<rparr>)
        \<and> exitStatus (snd (linkAction deps w pathArg opts st)) = 1)
   \<and> (selectedPlatforms opts \<noteq> []
        \<and> collaboratorsReturn deps w pathArg opts (selectedPlatforms opts) results \<longrightarrow>
        ((\<exists>p \<in> set (selectedPlatforms opts). \<exists>m \<in> set (results p). isFailedModule m) \<longrightarrow>
           exitStatus (snd (linkAction deps w pathArg opts st)) = 1)
        \<and> ((\<forall>p \<in> set (selectedPlatforms opts). \<forall>m \<in> set (results p). \<not> isFailedModule m) \<longrightarrow>
           exitCode (snd (linkAction deps w pathArg opts st)) = exitCode st)
        \<and> (\<exists>calls. events (snd (linkAction deps w pathArg opts st)) =
              events st @ [AutoLinking pathArg]
              @ concat (map (\<lambda>p. platformReport (prune opts) p (results p))
                          (selectedPlatforms opts))
              @ map RestoreCalled calls)
        \<and> (\<forall>p \<in> set (selectedPlatforms opts). \<forall>m \<in> set (results p).
              moduleLine m \<in> set (events (snd (linkAction deps w pathArg opts st)))))"
proof -
  have none: "selectedPlatforms opts = [] \<longrightarrow>
        linkAction deps w pathArg opts st =
          (Inr (), \<lparr> exitCode = Some 1,
                     events = events st @ [AutoLinking pathArg, NoPlatformSpecified] \<rparr>)
        \<and> exitStatus (snd (linkAction deps w pathArg opts st)) = 1"
    by (simp add: linkAction_no_platform exitStatus_def)
  have some: "((\<exists>p \<in> set (selectedPlatforms opts). \<exists>m \<in> set (results p). isFailedModule m) \<longrightarrow>
           exitStatus (snd (linkAction deps w pathArg opts st)) = 1)
        \<and> ((\<forall>p \<in> set (selectedPlatforms opts). \<forall>m \<in> set (results p). \<not> isFailedModule m) \<longrightarrow>
           exitCode (snd (linkAction deps w pathArg opts st)) = exitCode st)
        \<and> (\<exists>calls. events (snd (linkAction deps w pathArg opts st)) =
              events st @ [AutoLinking pathArg]
              @ concat (map (\<lambda>p. platformReport (prune opts) p (results p))
                          (selectedPlatforms opts))
              @ map RestoreCalled calls)
        \<and> (\<forall>p \<in> set (selectedPlatforms opts). \<forall>m \<in> set (results p).
              moduleLine m \<in> set (events (snd (linkAction deps w pathArg opts st))))"
    if sel: "selectedPlatforms opts \<noteq> []"
      and ret: "collaboratorsReturn deps w pathArg opts (selectedPlatforms opts) results"
  proof -
    from linkAction_report [OF sel ret, of st] obtain calls where
      code: "exitCode (snd (linkAction deps w pathArg opts st)) =
        (if \<exists>p \<in> set (selectedPlatforms opts). \<exists>m \<in> set (results p). isFailedModule m
         then Some 1 else exitCode st)"
      and ev: "events (snd (linkAction deps w pathArg opts st)) =
          events st @ [AutoLinking pathArg]
          @ concat (map (\<lambda>p. platformReport (prune opts) p (results p))
                      (selectedPlatforms opts))
          @ map RestoreCalled calls"
      by blast
    have "moduleLine m \<in> set (events (snd (linkAction deps w pathArg opts st)))"
      if "p \<in> set (selectedPlatforms opts)" and "m \<in> set (results p)" for p m
    proof -
      from ret that have "holdsSpawnFailure m"
        by (simp add: collaboratorsReturn_def)
      with that(2) have "moduleLine m \<in> set (platformReport (prune opts) p (results p))"
        using moduleLine_reported [of m "results p"] by (auto simp: platformReport_def)
      with that(1) show ?thesis
        unfolding ev by auto
    qed
    with code ev show ?thesis
      by (auto simp: exitStatus_def)
  qed
  show ?thesis
    using selectedPlatforms_empty [of opts] none some by blast
qed


lemma example_collaborators_return:
  "collaboratorsReturn exampleCollaborators w pathArg (linkOptions bothPlatforms)
     [AndroidPlatform, ApplePlatform] exampleResults"
  by (simp add: collaboratorsReturn_def exampleCollaborators_def exampleResults_def
        androidModules_def)

lemma example_selection:
  "selectedPlatforms (linkOptions bothPlatforms) = [AndroidPlatform, ApplePlatform]"
  "selectedPlatforms (linkOptions noPlatform) = []"
  by (simp_all add: selectedPlatforms_def linkOptions_def bothPlatforms_def noPlatform_def
        withDefault_def)

theorem link_exit_code_and_report_witness:
  "selectedPlatforms (linkOptions noPlatform) = []
   \<and> linkAction exampleCollaborators linuxHost ''/app'' (linkOptions noPlatform) freshState
       = (Inr (), \<lparr> exitCode = Some 1,
                    events = [AutoLinking ''/app'', NoPlatformSpecified] \<rparr>)
   \<and> selectedPlatforms (linkOptions bothPlatforms) \<noteq> []
   \<and> collaboratorsReturn exampleCollaborators linuxHost ''/app'' (linkOptions bothPlatforms)
        (selectedPlatforms (linkOptions bothPlatforms)) exampleResults
   \<and> isFailedModule (exampleResults AndroidPlatform ! 1)
   \<and> exitStatus (snd (linkAction exampleCollaborators linuxHost ''/app''
                         (linkOptions bothPlatforms) freshState)) = 1
   \<and> Skipped ''/app/node_modules/c/c.android.node'' ''/app/out/c.android.node''
       \<in> set (events (snd (linkAction exampleCollaborators linuxHost ''/app''
                              (linkOptions bothPlatforms) freshState)))"
proof -
  let ?run = "linkAction exampleCollaborators linuxHost ''/app''
                (linkOptions bothPlatforms) freshState"
  note both = link_exit_code_and_report
    [of "linkOptions bothPlatforms" exampleCollaborators linuxHost "''/app''" freshState
       exampleResults]
  note none = link_exit_code_and_report
    [of "linkOptions noPlatform" exampleCollaborators linuxHost "''/app''" freshState
       exampleResults]
  have sel: "selectedPlatforms (linkOptions bothPlatforms) \<noteq> []"
    by (simp add: example_selection)
  have ret: "collaboratorsReturn exampleCollaborators linuxHost ''/app'' (linkOptions bothPlatforms)
        (selectedPlatforms (linkOptions bothPlatforms)) exampleResults"
    by (simp add: example_selection example_collaborators_return)
  have failed: "isFailedModule (exampleResults AndroidPlatform ! 1)"
    by (simp add: exampleResults_def androidModules_def)
  have third: "LinkedModule ''/app/node_modules/c/c.android.node''
      ''/app/out/c.android.node'' True \<in> set (exampleResults AndroidPlatform)"
    by (simp add: exampleResults_def androidModules_def)
  have mem: "AndroidPlatform \<in> set (selectedPlatforms (linkOptions bothPlatforms))"
    by (simp add: example_selection)
  have second: "exampleResults AndroidPlatform ! 1 \<in> set (exampleResults AndroidPlatform)"
    by (simp add: exampleResults_def androidModules_def)
  have "\<exists>m \<in> set (exampleResults AndroidPlatform). isFailedModule m"
    using failed second by (rule bexI)
  then have ex: "\<exists>p \<in> set (selectedPlatforms (linkOptions bothPlatforms)).
          \<exists>m \<in> set (exampleResults p). isFailedModule m"
    using mem by (rule bexI)
  note some = both [THEN conjunct2, THEN conjunct2, THEN mp, OF conjI [OF sel ret]]
  have status: "exitStatus (snd ?run) = 1"
    by (rule some [THEN conjunct1, THEN mp, OF ex])
  have "moduleLine (LinkedModule ''/app/node_modules/c/c.android.node''
          ''/app/out/c.android.node'' True) \<in> set (events (snd ?run))"
    by (rule some [THEN conjunct2, THEN conjunct2, THEN conjunct2,
          THEN bspec, OF mem, THEN bspec, OF third])
  then have line: "Skipped ''/app/node_modules/c/c.android.node'' ''/app/out/c.android.node''
      \<in> set (events (snd ?run))"
    by simp
  have fresh: "events freshState @ [AutoLinking ''/app'', NoPlatformSpecified]
      = [AutoLinking ''/app'', NoPlatformSpecified]"
    by (simp add: freshState_def)
  have unselected: "linkAction exampleCollaborators linuxHost ''/app''
      (linkOptions noPlatform) freshState =
        (Inr (), \<lparr> exitCode = Some 1,
                   events = [AutoLinking ''/app'', NoPlatformSpecified] \<rparr>)"
    using none [THEN conjunct2, THEN conjunct1, THEN mp, OF example_selection(2),
          THEN conjunct1]
    by (simp add: fresh)
  show ?thesis
    by (intro conjI example_selection(2) unselected sel ret failed status line)
qed

text \<open>
  Claim C9. \<^verbatim>\<open>--prune\<close> defaults to true. When the command line does not give the
  option, the body of the loop calls \<^verbatim>\<open>pruneLinkedModules\<close> for its platform with the
  modules that \<^verbatim>\<open>linkModules\<close> returned, after the lines of the report; and with
  collaborators that return, that call is made for every selected platform in turn.
\<close>

theorem prune_runs_by_default:
  assumes "pruneFlag cl = None"
  shows "prune (linkOptions cl)
   \<and> (linkModules deps p (path_resolve w [pathArg]) (\<not> force (linkOptions cl))
          (packageName (linkOptions cl), pathSuffix (linkOptions cl)) = Inr ms
        \<and> (\<forall>m \<in> set ms. holdsSpawnFailure m) \<longrightarrow>
        fst (linkPlatform deps w pathArg (linkOptions cl) p st) = pruneLinkedModules deps p ms
        \<and> events (snd (linkPlatform deps w pathArg (linkOptions cl) p st)) =
            events st @ (if ms = [] then [FoundNoModules] else [])
            @ linkedLines ms @ failureLines ms @ [PruneCalled p ms])
   \<and> (selectedPlatforms (linkOptions cl) \<noteq> []
        \<and> collaboratorsReturn deps w (withDefault (cwd w) (pathArgument cl)) (linkOptions cl)
            (selectedPlatforms (linkOptions cl)) results \<longrightarrow>
        (\<exists>calls. events (snd (linkCommand deps w cl st)) =
            events st @ [AutoLinking (withDefault (cwd w) (pathArgument cl))]
            @ concat (map (\<lambda>p. (if results p = [] then [FoundNoModules] else [])
                               @ linkedLines (results p) @ failureLines (results p)
                               @ [PruneCalled p (results p)])
                        (selectedPlatforms (linkOptions cl)))
            @ map RestoreCalled calls)
        \<and> (\<forall>p \<in> set (selectedPlatforms (linkOptions cl)).
              PruneCalled p (results p) \<in> set (events (snd (linkCommand deps w cl st)))))"
proof -
  have pr: "prune (linkOptions cl)"
    using assms by (simp add: linkOptions_def withDefault_def)
  have body: "fst (linkPlatform deps w pathArg (linkOptions cl) p st)
                = pruneLinkedModules deps p ms
        \<and> events (snd (linkPlatform deps w pathArg (linkOptions cl) p st)) =
            events st @ (if ms = [] then [FoundNoModules] else [])
            @ linkedLines ms @ failureLines ms @ [PruneCalled p ms]"
    if "linkModules deps p (path_resolve w [pathArg]) (\<not> force (linkOptions cl))
          (packageName (linkOptions cl), pathSuffix (linkOptions cl)) = Inr ms"
      and "\<forall>m \<in> set ms. holdsSpawnFailure m"
    using linkPlatform_report [OF that, of st] pr by (simp add: platformReport_def)
  have whole: "(\<exists>calls. events (snd (linkCommand deps w cl st)) =
            events st @ [AutoLinking (withDefault (cwd w) (pathArgument cl))]
            @ concat (map (\<lambda>p. (if results p = [] then [FoundNoModules] else [])
                               @ linkedLines (results p) @ failureLines (results p)
                               @ [PruneCalled p (results p)])
                        (selectedPlatforms (linkOptions cl)))
            @ map RestoreCalled calls)
        \<and> (\<forall>p \<in> set (selectedPlatforms (linkOptions cl)).
              PruneCalled p (results p) \<in> set (events (snd (linkCommand deps w cl st))))"
    if sel: "selectedPlatforms (linkOptions cl) \<noteq> []"
      and ret: "collaboratorsReturn deps w (withDefault (cwd w) (pathArgument cl))
            (linkOptions cl) (selectedPlatforms (linkOptions cl)) results"
  proof -
    from linkAction_report [OF sel ret, of st] obtain calls where
      ev: "events (snd (linkCommand deps w cl st)) =
          events st @ [AutoLinking (withDefault (cwd w) (pathArgument cl))]
          @ concat (map (\<lambda>p. platformReport (prune (linkOptions cl)) p (results p))
                      (selectedPlatforms (linkOptions cl)))
          @ map RestoreCalled calls"
      unfolding linkCommand_def by blast
    have blocks: "platformReport (prune (linkOptions cl)) p (results p) =
        (if results p = [] then [FoundNoModules] else [])
        @ linkedLines (results p) @ failureLines (results p) @ [PruneCalled p (results p)]"
      for p
      using pr by (simp add: platformReport_def)
    have "PruneCalled p (results p) \<in> set (events (snd (linkCommand deps w cl st)))"
      if "p \<in> set (selectedPlatforms (linkOptions cl))" for p
      unfolding ev blocks using that by auto
    moreover have "events (snd (linkCommand deps w cl st)) =
            events st @ [AutoLinking (withDefault (cwd w) (pathArgument cl))]
            @ concat (map (\<lambda>p. (if results p = [] then [FoundNoModules] else [])
                               @ linkedLines (results p) @ failureLines (results p)
                               @ [PruneCalled p (results p)])
                        (selectedPlatforms (linkOptions cl)))
            @ map RestoreCalled calls"
      using ev unfolding blocks .
    ultimately show ?thesis
      by blast
  qed
  show ?thesis
    using pr body whole by blast
qed

theorem prune_runs_by_default_witness:
  "pruneFlag bothPlatforms = None
   \<and> selectedPlatforms (linkOptions bothPlatforms) = [AndroidPlatform, ApplePlatform]
   \<and> collaboratorsReturn exampleCollaborators linuxHost (withDefault (cwd linuxHost)
          (pathArgument bothPlatforms)) (linkOptions bothPlatforms)
        (selectedPlatforms (linkOptions bothPlatforms)) exampleResults
   \<and> PruneCalled AndroidPlatform androidModules
       \<in> set (events (snd (linkCommand exampleCollaborators linuxHost bothPlatforms freshState)))
   \<and> PruneCalled ApplePlatform []
       \<in> set (events (snd (linkCommand exampleCollaborators linuxHost bothPlatforms freshState)))
   \<and> linkCommand exampleCollaborators linuxHost bothPlatforms freshState =
       (Inr (),
        \<lparr> exitCode = Some 1,
          events =
            [AutoLinking ''/app'',
             Linked ''/app/node_modules/a/a.android.node'' ''/app/out/a.android.node'',
             Skipped ''/app/node_modules/c/c.android.node'' ''/app/out/c.android.node'',
             FailedToCopy ''/app/node_modules/b/b.android.node'',
             FailureMessage ''cp exited with 1'',
             FlushedOutput ''No space left on device'',
             PruneCalled AndroidPlatform androidModules,
             FoundNoModules,
             PruneCalled ApplePlatform []] \<rparr>)"
proof -
  have flag: "pruneFlag bothPlatforms = None"
    by (simp add: bothPlatforms_def)
  have sel: "selectedPlatforms (linkOptions bothPlatforms) \<noteq> []"
    by (simp add: example_selection)
  have ret: "collaboratorsReturn exampleCollaborators linuxHost (withDefault (cwd linuxHost)
          (pathArgument bothPlatforms)) (linkOptions bothPlatforms)
        (selectedPlatforms (linkOptions bothPlatforms)) exampleResults"
    by (simp add: example_selection example_collaborators_return)
  from prune_runs_by_default
    [OF flag, where deps = exampleCollaborators and w = linuxHost
       and results = exampleResults and st = freshState] sel ret
  have "\<forall>p \<in> set (selectedPlatforms (linkOptions bothPlatforms)).
      PruneCalled p (exampleResults p)
        \<in> set (events (snd (linkCommand exampleCollaborators linuxHost bothPlatforms
                               freshState)))"
    by blast
  then have calls: "PruneCalled AndroidPlatform androidModules
       \<in> set (events (snd (linkCommand exampleCollaborators linuxHost bothPlatforms freshState)))"
    "PruneCalled ApplePlatform []
       \<in> set (events (snd (linkCommand exampleCollaborators linuxHost bothPlatforms freshState)))"
    by (simp_all add: example_selection exampleResults_def)
  have run: "linkCommand exampleCollaborators linuxHost bothPlatforms freshState =
       (Inr (),
        \<lparr> exitCode = Some 1,
          events =
            [AutoLinking ''/app'',
             Linked ''/app/node_modules/a/a.android.node'' ''/app/out/a.android.node'',
             Skipped ''/app/node_modules/c/c.android.node'' ''/app/out/c.android.node'',
             FailedToCopy ''/app/node_modules/b/b.android.node'',
             FailureMessage ''cp exited with 1'',
             FlushedOutput ''No space left on device'',
             PruneCalled AndroidPlatform androidModules,
             FoundNoModules,
             PruneCalled ApplePlatform []] \<rparr>)"
    by code_simp
  show ?thesis
    using flag ret calls run by (simp add: example_selection)
qed

end
